theory Spec2Isabelle
  imports Complex_Main
begin

section \<open>Python values and exceptions\<close>

text \<open>
  The checker is a single Python module, \<^verbatim>\<open>outlook_calendar_checker/main.py\<close>. It polls a
  booking service, extracts the open slots from the decoded JSON answer and sends a
  text message to every configured recipient. Python is dynamically typed: the decoded
  answer is an arbitrary JSON value, and every attribute access, iteration and library
  call either yields a value or raises. Exceptions are therefore values of the model.
\<close>

datatype pyexn =
    ValueError string
  | JSONDecodeError string        \<comment> \<open>a subclass of \<^verbatim>\<open>ValueError\<close>\<close>
  | AttributeError string
  | TypeError string
  | OverflowError string
  | RequestException string      \<comment> \<open>\<^verbatim>\<open>requests.exceptions.RequestException\<close> and its subclasses\<close>
  | TwilioException string       \<comment> \<open>whatever the SMS client raises\<close>

text \<open>\<^verbatim>\<open>except ValueError\<close> and \<^verbatim>\<open>except requests.exceptions.RequestException\<close>.\<close>

fun is_ValueError :: "pyexn \<Rightarrow> bool" where
  "is_ValueError (ValueError _) = True"
| "is_ValueError (JSONDecodeError _) = True"
| "is_ValueError _ = False"

fun is_RequestException :: "pyexn \<Rightarrow> bool" where
  "is_RequestException (RequestException _) = True"
| "is_RequestException _ = False"

text \<open>
  What \<^verbatim>\<open>response.json()\<close> returns. A number is kept by its value: the code only ever
  tests it for truth, where \<^verbatim>\<open>NaN\<close> and the infinities behave like any other number that
  is not zero. A \<^verbatim>\<open>dict\<close> is the list of its items in insertion order, with distinct
  keys, read with \<^const>\<open>map_of\<close>. Strings are byte strings; every string the code compares
  with or strips is ASCII.
\<close>

datatype json =
    JNull
  | JBool bool
  | JNum rat
  | JStr string
  | JList "json list"
  | JDict "(string \<times> json) list"

text \<open>Python truth value: \<^verbatim>\<open>not x\<close> is \<open>\<not> truthy x\<close>.\<close>

fun truthy :: "json \<Rightarrow> bool" where
  "truthy JNull = False"
| "truthy (JBool b) = b"
| "truthy (JNum n) = (n \<noteq> 0)"
| "truthy (JStr s) = (s \<noteq> [])"
| "truthy (JList xs) = (xs \<noteq> [])"
| "truthy (JDict kvs) = (kvs \<noteq> [])"

text \<open>
  \<^verbatim>\<open>obj.get(key, default)\<close>: only a \<^verbatim>\<open>dict\<close> has the method; on \<^verbatim>\<open>None\<close>, a string,
  a number, a boolean or a list the attribute lookup raises \<^verbatim>\<open>AttributeError\<close>. A key that is
  present with the value \<^verbatim>\<open>None\<close> yields \<^verbatim>\<open>None\<close>, not the default.
\<close>

fun py_get :: "json \<Rightarrow> string \<Rightarrow> json \<Rightarrow> pyexn + json" where
  "py_get (JDict kvs) k d = Inr (case map_of kvs k of None \<Rightarrow> d | Some v \<Rightarrow> v)"
| "py_get _ k d = Inl (AttributeError ''get'')"

text \<open>
  \<^verbatim>\<open>for x in obj\<close>: a list yields its elements, a string its one-character strings, a
  \<^verbatim>\<open>dict\<close> its keys; \<^verbatim>\<open>None\<close>, numbers and booleans are not iterable.
\<close>

fun py_iter :: "json \<Rightarrow> pyexn + json list" where
  "py_iter (JList xs) = Inr xs"
| "py_iter (JStr s) = Inr (map (\<lambda>c. JStr [c]) s)"
| "py_iter (JDict kvs) = Inr (map (\<lambda>kv. JStr (fst kv)) kvs)"
| "py_iter _ = Inl (TypeError ''object is not iterable'')"

section \<open>The availability parser\<close>

text \<open>An entry of \<^verbatim>\<open>available_slots\<close>: the two \<^verbatim>\<open>dateTime\<close> values as they were read.\<close>

record slot =
  startDateTime :: json
  endDateTime :: json

definition excluded_statuses :: "json list" where
  "excluded_statuses =
     [JStr ''BOOKINGSAVAILABILITYSTATUS_BUSY'', JStr ''BOOKINGSAVAILABILITYSTATUS_OUT_OF_OFFICE'']"

text \<open>\<^verbatim>\<open>item.get(key, {}).get("dateTime")\<close>\<close>

definition get_dateTime :: "json \<Rightarrow> string \<Rightarrow> pyexn + json" where
  "get_dateTime item k =
     (case py_get item k (JDict []) of
        Inl e \<Rightarrow> Inl e
      | Inr d \<Rightarrow> py_get d ''dateTime'' JNull)"

text \<open>
  The inner loop of \<^verbatim>\<open>_parse_data\<close> (lines 201 to 215), with the list \<^verbatim>\<open>available_slots\<close>
  it appends to as accumulator.
\<close>

fun item_loop :: "json list \<Rightarrow> slot list \<Rightarrow> pyexn + slot list" where
  "item_loop [] available = Inr available"
| "item_loop (item # items) available =
     (case py_get item ''status'' JNull of
        Inl e \<Rightarrow> Inl e
      | Inr status \<Rightarrow>
          if status \<in> set excluded_statuses then item_loop items available
          else
            (case get_dateTime item ''startDateTime'' of
               Inl e \<Rightarrow> Inl e
             | Inr start_time \<Rightarrow>
                 (case get_dateTime item ''endDateTime'' of
                    Inl e \<Rightarrow> Inl e
                  | Inr end_time \<Rightarrow>
                      if \<not> truthy start_time \<or> \<not> truthy end_time
                      then Inl (ValueError ''Missing 'startDateTime' or 'endDateTime' in item.'')
                      else item_loop items
                             (available @ [\<lparr>startDateTime = start_time, endDateTime = end_time\<rparr>]))))"

text \<open>The outer loop (lines 196 to 215).\<close>

fun staff_loop :: "json list \<Rightarrow> slot list \<Rightarrow> pyexn + slot list" where
  "staff_loop [] available = Inr available"
| "staff_loop (staff # rest) available =
     (case py_get staff ''availabilityItems'' JNull of
        Inl e \<Rightarrow> Inl e
      | Inr availability_items \<Rightarrow>
          if availability_items = JNull
          then Inl (ValueError ''Missing 'availabilityItems' in staff data.'')
          else
            (case py_iter availability_items of
               Inl e \<Rightarrow> Inl e
             | Inr items \<Rightarrow>
                 (case item_loop items available of
                    Inl e \<Rightarrow> Inl e
                  | Inr available' \<Rightarrow> staff_loop rest available')))"

definition fixture_slot :: slot where
  "fixture_slot =
     \<lparr>startDateTime = JStr ''2024-10-22T18:00:00'', endDateTime = JStr ''2024-10-22T18:30:00''\<rparr>"

text \<open>
  Lines 188 to 215 of \<^verbatim>\<open>_parse_data\<close>: the value of \<^verbatim>\<open>available_slots\<close> when the
  \<^verbatim>\<open>if\<close> of line 217 is reached, or the exception raised before.
\<close>

definition available_slots :: "json \<Rightarrow> bool \<Rightarrow> pyexn + slot list" where
  "available_slots data send_notification_test =
     (if send_notification_test then Inr [fixture_slot]
      else
        (case py_get data ''staffAvailabilityResponse'' JNull of
           Inl e \<Rightarrow> Inl e
         | Inr staff_response \<Rightarrow>
             if \<not> truthy staff_response
             then Inl (ValueError ''Missing 'staffAvailabilityResponse' in response.'')
             else
               (case py_iter staff_response of
                  Inl e \<Rightarrow> Inl e
                | Inr staffs \<Rightarrow> staff_loop staffs [])))"

section \<open>Dates and times\<close>

text \<open>
  The part of the standard library's \<^verbatim>\<open>datetime\<close> that the module uses, following the
  library's own algorithms: a date is converted to its proleptic Gregorian ordinal (day 1 is
  0001-01-01), the \<^verbatim>\<open>timedelta\<close> is added there, and the result is converted back;
  a result outside \<^verbatim>\<open>0 < days <= _MAXORDINAL\<close> raises \<^verbatim>\<open>OverflowError\<close>. The field
  \<open>utcoffset\<close> is the offset of the attached \<^verbatim>\<open>tzinfo\<close> in seconds, \<open>None\<close> for a naive value.
  Microseconds are left out: the module never adds a fraction of a second and never prints one.
\<close>

record datetime =
  year :: int
  month :: int
  day :: int
  hour :: int
  minute :: int
  second :: int
  utcoffset :: "int option"

record timedelta =
  days :: int
  seconds :: int

definition timedelta_days :: "int \<Rightarrow> timedelta" where
  "timedelta_days n = \<lparr>days = n, seconds = 0\<rparr>"

definition timedelta_seconds :: "int \<Rightarrow> timedelta" where
  "timedelta_seconds n = \<lparr>days = 0, seconds = n\<rparr>"

definition MAXORDINAL :: int where
  "MAXORDINAL = 3652059"

definition DAYS_IN_MONTH :: "int list" where
  "DAYS_IN_MONTH = [-1, 31, 28, 31, 30, 31, 30, 31, 31, 30, 31, 30, 31]"

definition DAYS_BEFORE_MONTH :: "int list" where
  "DAYS_BEFORE_MONTH = [-1, 0, 31, 59, 90, 120, 151, 181, 212, 243, 273, 304, 334]"

definition is_leap :: "int \<Rightarrow> bool" where
  "is_leap y = (y mod 4 = 0 \<and> (y mod 100 \<noteq> 0 \<or> y mod 400 = 0))"

definition days_before_year :: "int \<Rightarrow> int" where
  "days_before_year y = (y - 1) * 365 + (y - 1) div 4 - (y - 1) div 100 + (y - 1) div 400"

definition days_before_month :: "int \<Rightarrow> int \<Rightarrow> int" where
  "days_before_month y m = DAYS_BEFORE_MONTH ! nat m + (if 2 < m \<and> is_leap y then 1 else 0)"

definition ymd2ord :: "int \<Rightarrow> int \<Rightarrow> int \<Rightarrow> int" where
  "ymd2ord y m d = days_before_year y + days_before_month y m + d"

definition ord2ymd :: "int \<Rightarrow> int \<times> int \<times> int" where
  "ord2ymd ordinal =
     (let n = ordinal - 1;
          n400 = n div 146097; n = n mod 146097;
          n100 = n div 36524; n = n mod 36524;
          n4 = n div 1461; n = n mod 1461;
          n1 = n div 365; n = n mod 365;
          y = n400 * 400 + 1 + n100 * 100 + n4 * 4 + n1
      in if n1 = 4 \<or> n100 = 4 then (y - 1, 12, 31)
         else
           let leapyear = (n1 = 3 \<and> (n4 \<noteq> 24 \<or> n100 = 3));
               m = (n + 50) div 32;
               preceding = DAYS_BEFORE_MONTH ! nat m + (if 2 < m \<and> leapyear then 1 else 0)
           in if n < preceding
              then (y, m - 1,
                    n - (preceding - (DAYS_IN_MONTH ! nat (m - 1)
                                       + (if m - 1 = 2 \<and> leapyear then 1 else 0))) + 1)
              else (y, m, n - preceding + 1))"

definition toordinal :: "datetime \<Rightarrow> int" where
  "toordinal dt = ymd2ord (year dt) (month dt) (day dt)"

text \<open>\<^verbatim>\<open>datetime.__add__\<close>; \<^verbatim>\<open>dt - delta\<close> is \<^verbatim>\<open>dt + (-delta)\<close>.\<close>

definition datetime_add :: "datetime \<Rightarrow> timedelta \<Rightarrow> pyexn + datetime" where
  "datetime_add dt delta =
     (let secs = hour dt * 3600 + minute dt * 60 + second dt + seconds delta;
          d = toordinal dt + days delta + secs div 86400;
          s = secs mod 86400
      in if 0 < d \<and> d \<le> MAXORDINAL
         then (case ord2ymd d of (y, m, dd) \<Rightarrow>
                 Inr (dt\<lparr>year := y, month := m, day := dd,
                         hour := s div 3600, minute := (s mod 3600) div 60, second := s mod 60\<rparr>))
         else Inl (OverflowError ''date value out of range''))"

definition timedelta_neg :: "timedelta \<Rightarrow> timedelta" where
  "timedelta_neg delta = \<lparr>days = - days delta, seconds = - seconds delta\<rparr>"

definition datetime_sub :: "datetime \<Rightarrow> timedelta \<Rightarrow> pyexn + datetime" where
  "datetime_sub dt delta = datetime_add dt (timedelta_neg delta)"

subsection \<open>\<^verbatim>\<open>strftime\<close>\<close>

text \<open>
  The directives the module uses, in the C locale: \<^verbatim>\<open>%Y\<close> (four digits), \<^verbatim>\<open>%m\<close>,
  \<^verbatim>\<open>%d\<close>, \<^verbatim>\<open>%I\<close>, \<^verbatim>\<open>%M\<close> (two digits each), \<^verbatim>\<open>%b\<close> and \<^verbatim>\<open>%p\<close>.
\<close>

definition digit :: "int \<Rightarrow> char" where
  "digit n = ''0123456789'' ! nat n"

definition pad2 :: "int \<Rightarrow> string" where
  "pad2 n = [digit (n div 10 mod 10), digit (n mod 10)]"

definition pad4 :: "int \<Rightarrow> string" where
  "pad4 n = [digit (n div 1000 mod 10), digit (n div 100 mod 10), digit (n div 10 mod 10), digit (n mod 10)]"

definition month_abbr :: "int \<Rightarrow> string" where
  "month_abbr m =
     [''Jan'', ''Feb'', ''Mar'', ''Apr'', ''May'', ''Jun'',
      ''Jul'', ''Aug'', ''Sep'', ''Oct'', ''Nov'', ''Dec''] ! nat (m - 1)"

definition hour12 :: "int \<Rightarrow> int" where
  "hour12 h = (if h mod 12 = 0 then 12 else h mod 12)"

definition am_pm :: "int \<Rightarrow> string" where
  "am_pm h = (if h < 12 then ''AM'' else ''PM'')"

text \<open>\<^verbatim>\<open>dt.strftime("%Y-%m-%dT00:00:00")\<close>\<close>

definition strftime_midnight :: "datetime \<Rightarrow> string" where
  "strftime_midnight dt = pad4 (year dt) @ ''-'' @ pad2 (month dt) @ ''-'' @ pad2 (day dt) @ ''T00:00:00''"

text \<open>\<^verbatim>\<open>dt.strftime('%b %d %I:%M%p')\<close> and \<^verbatim>\<open>dt.strftime('%I:%M%p')\<close>\<close>

definition strftime_time :: "datetime \<Rightarrow> string" where
  "strftime_time dt = pad2 (hour12 (hour dt)) @ '':'' @ pad2 (minute dt) @ am_pm (hour dt)"

definition strftime_date_time :: "datetime \<Rightarrow> string" where
  "strftime_date_time dt = month_abbr (month dt) @ '' '' @ pad2 (day dt) @ '' '' @ strftime_time dt"

section \<open>Configuration and the outside world\<close>

text \<open>
  The module-level constants read from \<^verbatim>\<open>config.yaml\<close> (lines 67 to 87). \<open>TIMEZONE\<close> is
  the \<^verbatim>\<open>pytz\<close> zone of the configuration, given by what it is used for: the offset from UTC,
  in seconds, that the zone has at a UTC date and time.
\<close>

record config =
  TIMEZONE :: "datetime \<Rightarrow> int"
  OUTLOOK_EMAIL :: string
  GET_TOKEN :: string
  SERVICE_ID :: json
  STAFF_IDS :: json
  ACCOUNT_SID :: string
  AUTH_TOKEN :: string
  TWILIO_PHONE_NUMBER :: string
  RECIPIENT_PHONE_NUMBERS :: "string list"

definition GET_URL :: "config \<Rightarrow> string" where
  "GET_URL cfg = ''https://outlook.office365.com/book/'' @ OUTLOOK_EMAIL cfg @ ''/s/'' @ GET_TOKEN cfg"

definition POST_URL :: "config \<Rightarrow> string" where
  "POST_URL cfg =
     ''https://outlook.office365.com/BookingsService/api/V1/bookingBusinessesc2/''
       @ OUTLOOK_EMAIL cfg @ ''/GetStaffAvailability?app=BookingsC2&n=7''"

text \<open>
  A \<^verbatim>\<open>requests\<close> response: the status, the body as text, and what \<^verbatim>\<open>.json()\<close> gives
  for it (the decoded value, or the decoder's exception).
\<close>

record response =
  status_code :: int
  resp_text :: string
  resp_json :: "pyexn + json"

text \<open>
  Everything one poll cycle reads from outside the module: the clock, the two HTTP
  exchanges (a response, or the exception the session raises once its own retries are used
  up), the SMS client, and the two library facts the formatter depends on, namely what
  \<^verbatim>\<open>datetime.fromisoformat\<close> returns for a string and which offset (in seconds) the host's
  local zone has for a naive local time.
\<close>

record world =
  now :: datetime
  session_get :: "pyexn + response"
  session_post :: "pyexn + response"
  fromisoformat :: "string \<Rightarrow> pyexn + datetime"
  local_utcoffset :: "datetime \<Rightarrow> int"
  twilio_client :: "string \<Rightarrow> string \<Rightarrow> pyexn option"
  messages_create :: "string \<Rightarrow> string \<Rightarrow> string \<Rightarrow> pyexn + string"

text \<open>
  What a cycle does to the outside, in order: the HTTP requests, the sleeps, the messages
  handed to the SMS client (sender, body, recipient) and the log records (the level and the
  message template with its arguments).
\<close>

datatype level = DEBUG | INFO | ERROR

datatype log_record =
    NoRecipients
  | NotificationSent string string
  | SmsFailed pyexn
  | GetFailed int string
  | GetOk
  | PostFailed int string
  | PostOk
  | ResponseData json
  | JsonParseFailed pyexn
  | NetworkError pyexn
  | Waiting int
  | SlotsFound
  | NoSlots

datatype event =
    Get string
  | Post string json
  | Sleep int
  | Send string string string
  | Log level log_record

text \<open>A computation: the events so far, and the value returned or the exception raised.\<close>

type_synonym 'a comp = "event list \<times> (pyexn + 'a)"

definition return :: "'a \<Rightarrow> 'a comp" where
  "return x = ([], Inr x)"

definition raise :: "pyexn \<Rightarrow> 'a comp" where
  "raise e = ([], Inl e)"

definition emit :: "event \<Rightarrow> 'a comp \<Rightarrow> 'a comp" where
  "emit ev m = (ev # fst m, snd m)"

definition bind :: "'a comp \<Rightarrow> ('a \<Rightarrow> 'b comp) \<Rightarrow> 'b comp" where
  "bind m f =
     (case snd m of
        Inl e \<Rightarrow> (fst m, Inl e)
      | Inr x \<Rightarrow> (fst m @ fst (f x), snd (f x)))"

text \<open>\<^verbatim>\<open>try: m  except C as e: handler(e)\<close>, where \<open>handles\<close> tells the exceptions of class \<open>C\<close>.\<close>

definition try_except :: "'a comp \<Rightarrow> (pyexn \<Rightarrow> bool) \<Rightarrow> (pyexn \<Rightarrow> 'a comp) \<Rightarrow> 'a comp" where
  "try_except m handles handler =
     (case snd m of
        Inl e \<Rightarrow> if handles e then (fst m @ fst (handler e), snd (handler e)) else m
      | Inr x \<Rightarrow> m)"

text \<open>\<^verbatim>\<open>time.sleep(secs)\<close> raises \<^verbatim>\<open>ValueError\<close> for a negative length.\<close>

definition sleep :: "int \<Rightarrow> 'a comp \<Rightarrow> 'a comp" where
  "sleep secs m =
     (if secs < 0 then raise (ValueError ''sleep length must be non-negative'')
      else emit (Sleep secs) m)"

section \<open>The notifier\<close>

text \<open>\<^verbatim>\<open>str.strip()\<close> on ASCII text.\<close>

definition isspace :: "char \<Rightarrow> bool" where
  "isspace c = (c \<in> set [CHR '' '', CHR 0x09, CHR 0x0A, CHR 0x0B, CHR 0x0C, CHR 0x0D,
                           CHR 0x1C, CHR 0x1D, CHR 0x1E, CHR 0x1F])"

definition strip :: "string \<Rightarrow> string" where
  "strip s = rev (dropWhile isspace (rev (dropWhile isspace s)))"

text \<open>The \<^verbatim>\<open>for\<close> loop of \<^verbatim>\<open>send_notification\<close> (lines 105 to 113).\<close>

fun recipient_loop :: "world \<Rightarrow> config \<Rightarrow> string \<Rightarrow> string list \<Rightarrow> unit comp" where
  "recipient_loop w cfg message [] = return ()"
| "recipient_loop w cfg message (r # rs) =
     (let recipient = strip r in
      if recipient \<noteq> [] then
        emit (Send (TWILIO_PHONE_NUMBER cfg) message recipient)
          (case messages_create w (TWILIO_PHONE_NUMBER cfg) message recipient of
             Inl e \<Rightarrow> raise e
           | Inr sid \<Rightarrow>
               emit (Log DEBUG (NotificationSent recipient sid))
                 (recipient_loop w cfg message rs))
      else recipient_loop w cfg message rs)"

text \<open>
  \<^verbatim>\<open>send_notification\<close> (lines 95 to 115). The \<^verbatim>\<open>try\<close> encloses the creation of the client
  and the whole loop, and \<^verbatim>\<open>except Exception\<close> handles every exception.
\<close>

definition send_notification :: "world \<Rightarrow> config \<Rightarrow> string \<Rightarrow> unit comp" where
  "send_notification w cfg message =
     (if RECIPIENT_PHONE_NUMBERS cfg = [] then emit (Log ERROR NoRecipients) (return ())
      else
        try_except
          (case twilio_client w (ACCOUNT_SID cfg) (AUTH_TOKEN cfg) of
             Some e \<Rightarrow> raise e
           | None \<Rightarrow> recipient_loop w cfg message (RECIPIENT_PHONE_NUMBERS cfg))
          (\<lambda>e. True)
          (\<lambda>e. emit (Log ERROR (SmsFailed e)) (return ())))"

section \<open>The slot formatter\<close>

text \<open>\<^verbatim>\<open>datetime.fromisoformat(x)\<close>: the argument must be a string.\<close>

definition py_fromisoformat :: "world \<Rightarrow> json \<Rightarrow> pyexn + datetime" where
  "py_fromisoformat w x =
     (case x of
        JStr s \<Rightarrow> fromisoformat w s
      | _ \<Rightarrow> Inl (TypeError ''fromisoformat: argument must be str''))"

text \<open>
  \<^verbatim>\<open>dt.astimezone(tz)\<close>: a naive value is taken to be in the host's local zone; the
  value is brought to UTC by subtracting its own offset, and the target zone's
  \<^verbatim>\<open>fromutc\<close> adds the offset the zone has then.
\<close>

definition astimezone :: "world \<Rightarrow> datetime \<Rightarrow> (datetime \<Rightarrow> int) \<Rightarrow> pyexn + datetime" where
  "astimezone w dt tz =
     (let myoffset = (case utcoffset dt of None \<Rightarrow> local_utcoffset w dt | Some off \<Rightarrow> off) in
      case datetime_sub dt (timedelta_seconds myoffset) of
        Inl e \<Rightarrow> Inl e
      | Inr utc \<Rightarrow>
          (let off = tz (utc\<lparr>utcoffset := None\<rparr>) in
           case datetime_add utc (timedelta_seconds off) of
             Inl e \<Rightarrow> Inl e
           | Inr local \<Rightarrow> Inr (local\<lparr>utcoffset := Some off\<rparr>)))"

text \<open>\<^verbatim>\<open>sep.join(xs)\<close>\<close>

fun join :: "string \<Rightarrow> string list \<Rightarrow> string" where
  "join sep [] = []"
| "join sep [x] = x"
| "join sep (x # y # ys) = x @ sep @ join sep (y # ys)"

text \<open>The loop of \<^verbatim>\<open>_format_available_slots\<close> (lines 230 to 233).\<close>

fun format_loop :: "world \<Rightarrow> config \<Rightarrow> slot list \<Rightarrow> string list \<Rightarrow> pyexn + string list" where
  "format_loop w cfg [] formatted_slots = Inr formatted_slots"
| "format_loop w cfg (slot # slots) formatted_slots =
     (case py_fromisoformat w (startDateTime slot) of
        Inl e \<Rightarrow> Inl e
      | Inr d1 \<Rightarrow>
     (case astimezone w d1 (TIMEZONE cfg) of
        Inl e \<Rightarrow> Inl e
      | Inr start_dt \<Rightarrow>
     (case py_fromisoformat w (endDateTime slot) of
        Inl e \<Rightarrow> Inl e
      | Inr d2 \<Rightarrow>
     (case astimezone w d2 (TIMEZONE cfg) of
        Inl e \<Rightarrow> Inl e
      | Inr end_dt \<Rightarrow>
          format_loop w cfg slots
            (formatted_slots @ [strftime_date_time start_dt @ '' - '' @ strftime_time end_dt])))))"

definition format_available_slots :: "world \<Rightarrow> config \<Rightarrow> slot list \<Rightarrow> pyexn + string" where
  "format_available_slots w cfg slots =
     (case format_loop w cfg slots [] of
        Inl e \<Rightarrow> Inl e
      | Inr formatted_slots \<Rightarrow> Inr (join [CHR 0x0A] formatted_slots))"

section \<open>Parsing a response and notifying\<close>

text \<open>The text of the notification (line 220).\<close>

definition notification_text :: "config \<Rightarrow> string \<Rightarrow> string" where
  "notification_text cfg formatted_slots =
     ''Booking Slots Available!'' @ [CHR 0x0A, CHR 0x0A] @ formatted_slots
       @ [CHR 0x0A, CHR 0x0A] @ ''Go to: '' @ GET_URL cfg"

text \<open>\<^verbatim>\<open>_parse_data\<close> (lines 183 to 222).\<close>

definition parse_data :: "world \<Rightarrow> config \<Rightarrow> json \<Rightarrow> bool \<Rightarrow> unit comp" where
  "parse_data w cfg data send_notification_test =
     (case available_slots data send_notification_test of
        Inl e \<Rightarrow> raise e
      | Inr slots \<Rightarrow>
          if slots \<noteq> [] then
            (case format_available_slots w cfg slots of
               Inl e \<Rightarrow> raise e
             | Inr formatted_slots \<Rightarrow>
                 emit (Log INFO SlotsFound)
                   (send_notification w cfg (notification_text cfg formatted_slots)))
          else emit (Log INFO NoSlots) (return ()))"

section \<open>The payload builder\<close>

text \<open>\<^verbatim>\<open>_create_post_payload\<close> (lines 158 to 180), with \<^verbatim>\<open>datetime.now(timezone.utc)\<close> as argument.\<close>

definition create_post_payload :: "config \<Rightarrow> datetime \<Rightarrow> pyexn + json" where
  "create_post_payload cfg today =
     (case datetime_sub today (timedelta_days 1) of
        Inl e \<Rightarrow> Inl e
      | Inr start_date \<Rightarrow>
          (case datetime_add start_date (timedelta_days 12) of
             Inl e \<Rightarrow> Inl e
           | Inr end_date \<Rightarrow>
               Inr (JDict
                 [(''serviceId'', SERVICE_ID cfg),
                  (''staffIds'', STAFF_IDS cfg),
                  (''startDateTime'',
                     JDict [(''dateTime'', JStr (strftime_midnight start_date)),
                            (''timeZone'', JStr ''Pacific Standard Time'')]),
                  (''endDateTime'',
                     JDict [(''dateTime'', JStr (strftime_midnight end_date)),
                            (''timeZone'', JStr ''Pacific Standard Time'')])])))"

section \<open>The poll loop\<close>

text \<open>
  The body of the outer \<^verbatim>\<open>try\<close> of \<^verbatim>\<open>check_availability\<close> (lines 128 to 149). The value
  tells whether a \<^verbatim>\<open>continue\<close> was executed.
\<close>

definition try_body :: "config \<Rightarrow> int \<Rightarrow> bool \<Rightarrow> world \<Rightarrow> bool comp" where
  "try_body cfg polling_interval send_notification_test w =
     emit (Get (GET_URL cfg))
       (case session_get w of
          Inl e \<Rightarrow> raise e
        | Inr response \<Rightarrow>
            if status_code response \<noteq> 200 then
              emit (Log ERROR (GetFailed (status_code response) (resp_text response)))
                (sleep polling_interval (return True))
            else
              emit (Log INFO GetOk)
                (case create_post_payload cfg (now w) of
                   Inl e \<Rightarrow> raise e
                 | Inr payload \<Rightarrow>
                     emit (Post (POST_URL cfg) payload)
                       (case session_post w of
                          Inl e \<Rightarrow> raise e
                        | Inr post_response \<Rightarrow>
                            if status_code post_response \<noteq> 200 then
                              emit (Log ERROR (PostFailed (status_code post_response)
                                                          (resp_text post_response)))
                                (sleep polling_interval (return True))
                            else
                              emit (Log INFO PostOk)
                                (bind
                                   (try_except
                                      (case resp_json post_response of
                                         Inl e \<Rightarrow> raise e
                                       | Inr data \<Rightarrow>
                                           emit (Log DEBUG (ResponseData data))
                                             (parse_data w cfg data send_notification_test))
                                      is_ValueError
                                      (\<lambda>e. emit (Log ERROR (JsonParseFailed e)) (return ())))
                                   (\<lambda>_. return False)))))"

text \<open>One iteration of the \<^verbatim>\<open>while True\<close> (lines 127 to 155).\<close>

definition cycle :: "config \<Rightarrow> int \<Rightarrow> bool \<Rightarrow> world \<Rightarrow> unit comp" where
  "cycle cfg polling_interval send_notification_test w =
     bind
       (try_except (try_body cfg polling_interval send_notification_test w)
          is_RequestException
          (\<lambda>e. emit (Log ERROR (NetworkError e)) (return False)))
       (\<lambda>continued.
          if continued then return ()
          else emit (Log INFO (Waiting polling_interval)) (sleep polling_interval (return ())))"

text \<open>
  \<^verbatim>\<open>check_availability\<close>: the loop has no exit of its own. It is run against the
  successive states of the outside world, one for each iteration; it is either still
  looping when they are used up (the process is stopped from outside), or an exception
  has left the loop and ended the process.
\<close>

datatype outcome = Looping | Propagated pyexn

fun check_availability :: "config \<Rightarrow> int \<Rightarrow> bool \<Rightarrow> world list \<Rightarrow> event list \<times> outcome" where
  "check_availability cfg polling_interval send_notification_test [] = ([], Looping)"
| "check_availability cfg polling_interval send_notification_test (w # ws) =
     (case snd (cycle cfg polling_interval send_notification_test w) of
        Inl e \<Rightarrow> (fst (cycle cfg polling_interval send_notification_test w), Propagated e)
      | Inr _ \<Rightarrow>
          (fst (cycle cfg polling_interval send_notification_test w)
             @ fst (check_availability cfg polling_interval send_notification_test ws),
           snd (check_availability cfg polling_interval send_notification_test ws)))"

section \<open>Notions used to state the properties\<close>

text \<open>
  The items of a response as the specification reads them: the value of a field of an
  object, the elements of a list, all availability items in staff-then-item order, whether
  an item carries an excluded status, and the slot an item stands for.
\<close>

definition field :: "json \<Rightarrow> string \<Rightarrow> json" where
  "field obj k = (case py_get obj k JNull of Inl e \<Rightarrow> JNull | Inr v \<Rightarrow> v)"

definition elements :: "json \<Rightarrow> json list" where
  "elements v = (case py_iter v of Inl e \<Rightarrow> [] | Inr xs \<Rightarrow> xs)"

definition response_items :: "json \<Rightarrow> json list" where
  "response_items data =
     concat (map (\<lambda>staff. elements (field staff ''availabilityItems''))
                 (elements (field data ''staffAvailabilityResponse'')))"

definition item_excluded :: "json \<Rightarrow> bool" where
  "item_excluded item = (field item ''status'' \<in> set excluded_statuses)"

definition item_slot :: "json \<Rightarrow> slot" where
  "item_slot item =
     \<lparr>startDateTime = field (field item ''startDateTime'') ''dateTime'',
      endDateTime = field (field item ''endDateTime'') ''dateTime''\<rparr>"

text \<open>The calls of the SMS client in a trace: sender, body and recipient, in order.\<close>

fun gateway_calls :: "event list \<Rightarrow> (string \<times> string \<times> string) list" where
  "gateway_calls [] = []"
| "gateway_calls (Send sender body recipient # evs) = (sender, body, recipient) # gateway_calls evs"
| "gateway_calls (_ # evs) = gateway_calls evs"

text \<open>The recipients that \<^const>\<open>recipient_loop\<close> does not skip: stripped, and not blank.\<close>

definition targets :: "config \<Rightarrow> string list" where
  "targets cfg = filter (\<lambda>r. r \<noteq> []) (map strip (RECIPIENT_PHONE_NUMBERS cfg))"

subsection \<open>Example inputs\<close>

definition example_config :: config where
  "example_config =
     \<lparr>TIMEZONE = (\<lambda>utc. - 25200),
      OUTLOOK_EMAIL = ''clinic@example.com'',
      GET_TOKEN = ''tok'',
      SERVICE_ID = JStr ''svc'',
      STAFF_IDS = JList [JStr ''staff-1''],
      ACCOUNT_SID = ''AC1'',
      AUTH_TOKEN = ''secret'',
      TWILIO_PHONE_NUMBER = ''+15550000'',
      RECIPIENT_PHONE_NUMBERS = [''+15550001'', ''+15550002'']\<rparr>"

definition example_fromisoformat :: "string \<Rightarrow> pyexn + datetime" where
  "example_fromisoformat s =
     (if s = ''2024-10-22T18:00:00''
      then Inr \<lparr>year = 2024, month = 10, day = 22, hour = 18, minute = 0, second = 0, utcoffset = None\<rparr>
      else if s = ''2024-10-22T18:30:00''
      then Inr \<lparr>year = 2024, month = 10, day = 22, hour = 18, minute = 30, second = 0, utcoffset = None\<rparr>
      else Inl (ValueError ''Invalid isoformat string''))"

definition item_json :: "string \<Rightarrow> string \<Rightarrow> string \<Rightarrow> json" where
  "item_json status start_time end_time =
     JDict [(''status'', JStr status),
            (''startDateTime'', JDict [(''dateTime'', JStr start_time)]),
            (''endDateTime'', JDict [(''dateTime'', JStr end_time)])]"

definition example_response :: json where
  "example_response =
     JDict [(''staffAvailabilityResponse'', JList
       [JDict [(''availabilityItems'', JList
          [item_json ''BOOKINGSAVAILABILITYSTATUS_BUSY'' ''2024-10-22T17:00:00'' ''2024-10-22T18:00:00'',
           item_json ''BOOKINGSAVAILABILITYSTATUS_AVAILABLE'' ''2024-10-22T18:00:00'' ''2024-10-22T18:30:00''])],
        JDict [(''availabilityItems'', JList
          [item_json ''BOOKINGSAVAILABILITYSTATUS_OUT_OF_OFFICE'' ''2024-10-23T09:00:00'' ''2024-10-23T17:00:00'',
           item_json ''BOOKINGSAVAILABILITYSTATUS_AVAILABLE'' ''2024-10-22T18:00:00'' ''2024-10-22T18:30:00''])]])]"

definition all_busy_response :: json where
  "all_busy_response =
     JDict [(''staffAvailabilityResponse'', JList
       [JDict [(''availabilityItems'', JList
          [item_json ''BOOKINGSAVAILABILITYSTATUS_BUSY'' ''2024-10-22T17:00:00'' ''2024-10-22T18:00:00'',
           item_json ''BOOKINGSAVAILABILITYSTATUS_OUT_OF_OFFICE'' ''2024-10-23T09:00:00'' ''2024-10-23T17:00:00''])]])]"

text \<open>
  \<^verbatim>\<open>{"staffAvailabilityResponse": [{"availabilityItems":
     [{"status": "BOOKINGSAVAILABILITYSTATUS_AVAILABLE", "endDateTime": null}]}]}\<close>:
  an item that is not busy, has no \<^verbatim>\<open>startDateTime\<close> at all, and whose \<^verbatim>\<open>endDateTime\<close> is null.
\<close>

definition null_timestamp_response :: json where
  "null_timestamp_response =
     JDict [(''staffAvailabilityResponse'', JList
       [JDict [(''availabilityItems'', JList
          [JDict [(''status'', JStr ''BOOKINGSAVAILABILITYSTATUS_AVAILABLE''),
                  (''endDateTime'', JNull)]])]])]"

definition ok_response :: "json \<Rightarrow> response" where
  "ok_response body = \<lparr>status_code = 200, resp_text = [], resp_json = Inr body\<rparr>"

definition example_world :: world where
  "example_world =
     \<lparr>now = \<lparr>year = 2024, month = 10, day = 10, hour = 0, minute = 0, second = 0, utcoffset = Some 0\<rparr>,
      session_get = Inr (ok_response JNull),
      session_post = Inr (ok_response example_response),
      fromisoformat = example_fromisoformat,
      local_utcoffset = (\<lambda>dt. 0),
      twilio_client = (\<lambda>sid token. None),
      messages_create = (\<lambda>sender body recipient. Inr ''SM1'')\<rparr>"

text \<open>The SMS service rejects the first recipient of \<^const>\<open>example_config\<close>.\<close>

definition rejecting_world :: world where
  "rejecting_world =
     example_world\<lparr>messages_create :=
       (\<lambda>sender body recipient.
          if recipient = ''+15550001'' then Inl (TwilioException ''invalid number'') else Inr ''SM1'')\<rparr>"

text \<open>The host runs in the display zone itself: its local offset is seven hours behind UTC.\<close>

definition pacific_host_world :: world where
  "pacific_host_world = example_world\<lparr>local_utcoffset := (\<lambda>dt. - 25200)\<rparr>"

text \<open>The availability query is answered with status 200 and the JSON body \<^verbatim>\<open>[]\<close>.\<close>

definition list_body_world :: world where
  "list_body_world = example_world\<lparr>session_post := Inr (ok_response (JList []))\<rparr>"

definition unavailable_world :: world where
  "unavailable_world =
     example_world\<lparr>session_get :=
       Inr \<lparr>status_code = 503, resp_text = ''Service Unavailable'',
            resp_json = Inl (JSONDecodeError ''Expecting value'')\<rparr>\<rparr>"

text \<open>What \<^verbatim>\<open>fromisoformat\<close> returns for the two timestamps of the fixture slot.\<close>

definition fixture_start :: datetime where
  "fixture_start = \<lparr>year = 2024, month = 10, day = 22, hour = 18, minute = 0, second = 0, utcoffset = None\<rparr>"

definition fixture_end :: datetime where
  "fixture_end = \<lparr>year = 2024, month = 10, day = 22, hour = 18, minute = 30, second = 0, utcoffset = None\<rparr>"

text \<open>
  The time of day of a \<^verbatim>\<open>datetime\<close> object is always in range; and the instant of the
  specification's example, 2024-10-10T00:00:00Z.
\<close>

definition valid_time :: "datetime \<Rightarrow> bool" where
  "valid_time dt =
     (0 \<le> hour dt \<and> hour dt < 24 \<and> 0 \<le> minute dt \<and> minute dt < 60
      \<and> 0 \<le> second dt \<and> second dt < 60)"

definition october_10 :: datetime where
  "october_10 = \<lparr>year = 2024, month = 10, day = 10, hour = 0, minute = 0, second = 0, utcoffset = Some 0\<rparr>"

section \<open>Properties of the parser\<close>

lemma get_dateTime_field:
  "get_dateTime item k = Inr v \<Longrightarrow> truthy v \<Longrightarrow> field (field item k) ''dateTime'' = v"
  by (cases item; cases "field item k")
     (auto simp: get_dateTime_def field_def split: option.splits sum.splits)

lemma py_get_status_field: "py_get item ''status'' JNull = Inr s \<Longrightarrow> field item ''status'' = s"
  by (simp add: field_def)

lemma item_loop_spec:
  "item_loop items available = Inr slots \<Longrightarrow>
   slots = available @ map item_slot (filter (\<lambda>i. \<not> item_excluded i) items)"
proof (induction items arbitrary: available)
  case Nil
  then show ?case by simp
next
  case (Cons item items)
  from Cons.prems obtain status where st: "py_get item ''status'' JNull = Inr status"
    by (auto split: sum.splits)
  show ?case
  proof (cases "status \<in> set excluded_statuses")
    case True
    with Cons st show ?thesis
      by (simp add: item_excluded_def py_get_status_field)
  next
    case False
    with Cons.prems st obtain s e where
      se: "get_dateTime item ''startDateTime'' = Inr s" "get_dateTime item ''endDateTime'' = Inr e"
          "truthy s" "truthy e"
      and rest: "item_loop items (available @ [\<lparr>startDateTime = s, endDateTime = e\<rparr>]) = Inr slots"
      by (auto split: sum.splits if_splits)
    have "item_slot item = \<lparr>startDateTime = s, endDateTime = e\<rparr>"
      using se by (simp add: item_slot_def get_dateTime_field)
    with Cons.IH [OF rest] False st show ?thesis
      by (simp add: item_excluded_def py_get_status_field)
  qed
qed

lemma staff_loop_spec:
  "staff_loop staffs available = Inr slots \<Longrightarrow>
   slots = available @ map item_slot (filter (\<lambda>i. \<not> item_excluded i)
             (concat (map (\<lambda>staff. elements (field staff ''availabilityItems'')) staffs)))"
proof (induction staffs arbitrary: available)
  case Nil
  then show ?case by simp
next
  case (Cons staff rest)
  from Cons.prems obtain ai items available' where
    ai: "py_get staff ''availabilityItems'' JNull = Inr ai" "py_iter ai = Inr items"
    and il: "item_loop items available = Inr available'"
    and sl: "staff_loop rest available' = Inr slots"
    by (auto split: sum.splits if_splits)
  have "elements (field staff ''availabilityItems'') = items"
    using ai by (simp add: field_def elements_def)
  with item_loop_spec [OF il] Cons.IH [OF sl] show ?case by simp
qed

lemma staff_loop_append:
  "staff_loop (xs @ ys) available =
     (case staff_loop xs available of Inl e \<Rightarrow> Inl e | Inr available' \<Rightarrow> staff_loop ys available')"
  by (induction xs arbitrary: available) (auto split: sum.splits)

lemma item_loop_append:
  "item_loop (xs @ ys) available =
     (case item_loop xs available of Inl e \<Rightarrow> Inl e | Inr available' \<Rightarrow> item_loop ys available')"
  by (induction xs arbitrary: available) (auto split: sum.splits)

lemma item_loop_truthy:
  "item_loop items available = Inr slots \<Longrightarrow>
   \<forall>s \<in> set available. truthy (startDateTime s) \<and> truthy (endDateTime s) \<Longrightarrow>
   \<forall>s \<in> set slots. truthy (startDateTime s) \<and> truthy (endDateTime s)"
proof (induction items arbitrary: available)
  case Nil
  then show ?case by simp
next
  case (Cons item items)
  show ?case
    using Cons.prems
    by (auto split: sum.splits if_splits dest!: Cons.IH)
qed

lemma staff_loop_truthy:
  "staff_loop staffs available = Inr slots \<Longrightarrow>
   \<forall>s \<in> set available. truthy (startDateTime s) \<and> truthy (endDateTime s) \<Longrightarrow>
   \<forall>s \<in> set slots. truthy (startDateTime s) \<and> truthy (endDateTime s)"
proof (induction staffs arbitrary: available)
  case Nil
  then show ?case by simp
next
  case (Cons staff rest)
  from Cons.prems(1) obtain ai items available' where
    il: "item_loop items available = Inr available'"
    and sl: "staff_loop rest available' = Inr slots"
    by (auto split: sum.splits if_splits)
  from item_loop_truthy [OF il Cons.prems(2)] Cons.IH [OF sl] show ?case by blast
qed

lemma example_response_slots:
  "available_slots example_response False =
     Inr [\<lparr>startDateTime = JStr ''2024-10-22T18:00:00'', endDateTime = JStr ''2024-10-22T18:30:00''\<rparr>,
          \<lparr>startDateTime = JStr ''2024-10-22T18:00:00'', endDateTime = JStr ''2024-10-22T18:30:00''\<rparr>]"
  by (simp add: available_slots_def example_response_def item_json_def get_dateTime_def
        excluded_statuses_def)

lemma missing_timestamp_raises_ValueError:
  assumes "py_get item ''status'' JNull = Inr status" "status \<notin> set excluded_statuses"
    and "get_dateTime item ''startDateTime'' = Inr start_time"
    and "get_dateTime item ''endDateTime'' = Inr end_time"
    and "\<not> truthy start_time \<or> \<not> truthy end_time"
  shows "item_loop (item # items) available
           = Inl (ValueError ''Missing 'startDateTime' or 'endDateTime' in item.'')"
  using assms by auto

text \<open>
  Claim C2. Whenever the parser gets through a response without raising, the list of
  slots it has built is exactly the list of the response's items, in staff-then-item order,
  with the items whose status is \<^verbatim>\<open>BUSY\<close> or \<^verbatim>\<open>OUT_OF_OFFICE\<close> left out and every
  other item turned into the slot of its start and end \<^verbatim>\<open>dateTime\<close>; nothing is sorted,
  merged or dropped, and both timestamps of every slot are present.
\<close>

theorem parser_returns_non_excluded_items:
  assumes "available_slots data False = Inr slots"
  shows "slots = map item_slot (filter (\<lambda>item. \<not> item_excluded item) (response_items data))
         \<and> (\<forall>s \<in> set slots. truthy (startDateTime s) \<and> truthy (endDateTime s))"
proof -
  from assms obtain sr staffs where
    sr: "py_get data ''staffAvailabilityResponse'' JNull = Inr sr" "py_iter sr = Inr staffs"
    and sl: "staff_loop staffs [] = Inr slots"
    by (auto simp: available_slots_def split: sum.splits if_splits)
  have "elements (field data ''staffAvailabilityResponse'') = staffs"
    using sr by (simp add: field_def elements_def)
  with staff_loop_spec [OF sl] staff_loop_truthy [OF sl] show ?thesis
    by (simp add: response_items_def)
qed

theorem parser_returns_non_excluded_items_witness:
  "available_slots example_response False =
     Inr [\<lparr>startDateTime = JStr ''2024-10-22T18:00:00'', endDateTime = JStr ''2024-10-22T18:30:00''\<rparr>,
          \<lparr>startDateTime = JStr ''2024-10-22T18:00:00'', endDateTime = JStr ''2024-10-22T18:30:00''\<rparr>]
   \<and> map item_slot (filter (\<lambda>item. \<not> item_excluded item) (response_items example_response)) =
        [\<lparr>startDateTime = JStr ''2024-10-22T18:00:00'', endDateTime = JStr ''2024-10-22T18:30:00''\<rparr>,
         \<lparr>startDateTime = JStr ''2024-10-22T18:00:00'', endDateTime = JStr ''2024-10-22T18:30:00''\<rparr>]"
  using parser_returns_non_excluded_items [OF example_response_slots] example_response_slots
  by simp

text \<open>
  Claim C3. A response object without the field \<^verbatim>\<open>staffAvailabilityResponse\<close> makes the
  parser raise \<^verbatim>\<open>ValueError\<close>, with no slot list and no event. A response whose staff list
  holds an entry without the field \<^verbatim>\<open>availabilityItems\<close> never yields a slot list, and
  when the loop reaches that entry (the entries before it were read without an exception)
  the parser raises the \<^verbatim>\<open>ValueError\<close> for the missing items field.
\<close>

theorem missing_field_raises_ValueError:
  "(map_of kvs ''staffAvailabilityResponse'' = None \<longrightarrow>
      available_slots (JDict kvs) False
        = Inl (ValueError ''Missing 'staffAvailabilityResponse' in response.'')
      \<and> parse_data w cfg (JDict kvs) False
        = ([], Inl (ValueError ''Missing 'staffAvailabilityResponse' in response.'')))
   \<and> (map_of kvs ''staffAvailabilityResponse'' = Some (JList (before @ JDict entry # rest))
      \<and> map_of entry ''availabilityItems'' = None \<longrightarrow>
      (\<forall>slots. available_slots (JDict kvs) False \<noteq> Inr slots)
      \<and> (\<forall>available. staff_loop before [] = Inr available \<longrightarrow>
           available_slots (JDict kvs) False
             = Inl (ValueError ''Missing 'availabilityItems' in staff data.'')
           \<and> parse_data w cfg (JDict kvs) False
             = ([], Inl (ValueError ''Missing 'availabilityItems' in staff data.''))))"
  by (auto simp: available_slots_def parse_data_def raise_def staff_loop_append
           split: sum.splits)

theorem missing_field_raises_ValueError_witness:
  "map_of ([] :: (string \<times> json) list) ''staffAvailabilityResponse'' = None
   \<and> available_slots (JDict []) False
       = Inl (ValueError ''Missing 'staffAvailabilityResponse' in response.'')
   \<and> staff_loop [JDict [(''availabilityItems'', JList [])]] [] = Inr []
   \<and> map_of [(''staffId'', JStr ''staff-2'')] ''availabilityItems'' = None
   \<and> available_slots
        (JDict [(''staffAvailabilityResponse'',
                 JList ([JDict [(''availabilityItems'', JList [])]]
                        @ JDict [(''staffId'', JStr ''staff-2'')] # []))]) False
       = Inl (ValueError ''Missing 'availabilityItems' in staff data.'')"
  using missing_field_raises_ValueError
          [where kvs = "[]" and w = example_world and cfg = example_config]
        missing_field_raises_ValueError
          [where kvs = "[(''staffAvailabilityResponse'',
                          JList ([JDict [(''availabilityItems'', JList [])]]
                                 @ JDict [(''staffId'', JStr ''staff-2'')] # []))]"
             and before = "[JDict [(''availabilityItems'', JList [])]]"
             and entry = "[(''staffId'', JStr ''staff-2'')]" and rest = "[]"
             and w = example_world and cfg = example_config]
  by simp

text \<open>
  Claim C10. When \<^verbatim>\<open>staffAvailabilityResponse\<close> is present but falsy (the empty list,
  \<^verbatim>\<open>null\<close>, \<^verbatim>\<open>false\<close>, zero, the empty string or the empty object), the parser raises
  the very \<^verbatim>\<open>ValueError\<close> it raises for an absent field; in particular a response that
  lists no staff entry does not give the empty slot list.
\<close>

theorem falsy_staff_response_raises_ValueError:
  assumes "map_of kvs ''staffAvailabilityResponse'' = Some v" and "\<not> truthy v"
  shows "available_slots (JDict kvs) False
           = Inl (ValueError ''Missing 'staffAvailabilityResponse' in response.'')
         \<and> available_slots (JDict kvs) False = available_slots (JDict []) False
         \<and> parse_data w cfg (JDict kvs) False
           = ([], Inl (ValueError ''Missing 'staffAvailabilityResponse' in response.''))"
  using assms by (simp add: available_slots_def parse_data_def raise_def)

theorem falsy_staff_response_raises_ValueError_witness:
  "map_of [(''staffAvailabilityResponse'', JList [])] ''staffAvailabilityResponse'' = Some (JList [])
   \<and> \<not> truthy (JList [])
   \<and> available_slots (JDict [(''staffAvailabilityResponse'', JList [])]) False
       = Inl (ValueError ''Missing 'staffAvailabilityResponse' in response.'')
   \<and> available_slots (JDict [(''staffAvailabilityResponse'', JList [])]) False \<noteq> Inr []"
  using falsy_staff_response_raises_ValueError
          [where kvs = "[(''staffAvailabilityResponse'', JList [])]" and v = "JList []"
             and w = example_world and cfg = example_config]
  by simp

text \<open>
  Claim C4, at the response \<^const>\<open>null_timestamp_response\<close>: its only item is not busy, has
  no start timestamp, and carries \<^verbatim>\<open>"endDateTime": null\<close>. Line 207 calls \<^verbatim>\<open>.get\<close> on
  \<^verbatim>\<open>None\<close>, so the parser raises \<^verbatim>\<open>AttributeError\<close>, which is not a \<^verbatim>\<open>ValueError\<close>.
  The lemma \<open>missing_timestamp_raises_ValueError\<close> above is the case the code handles: both
  lookups succeed and one of them finds nothing.
\<close>

theorem null_timestamp_raises_AttributeError:
  "available_slots null_timestamp_response False = Inl (AttributeError ''get'')
   \<and> \<not> is_ValueError (AttributeError ''get'')
   \<and> snd (parse_data example_world example_config null_timestamp_response False)
       = Inl (AttributeError ''get'')"
  by (simp add: available_slots_def null_timestamp_response_def get_dateTime_def
        excluded_statuses_def parse_data_def raise_def)

section \<open>Properties of the notifier\<close>

lemma fst_emit [simp]: "fst (emit ev m) = ev # fst m"
  and snd_emit [simp]: "snd (emit ev m) = snd m"
  and fst_return [simp]: "fst (return x) = []"
  and snd_return [simp]: "snd (return x) = Inr x"
  and fst_raise [simp]: "fst (raise e) = []"
  and snd_raise [simp]: "snd (raise e) = Inl e"
  by (simp_all add: emit_def return_def raise_def)

lemma gateway_calls_append [simp]:
  "gateway_calls (xs @ ys) = gateway_calls xs @ gateway_calls ys"
  by (induction xs rule: gateway_calls.induct) simp_all

lemma recipient_loop_all_sent:
  assumes "\<forall>x \<in> set (filter (\<lambda>r. r \<noteq> []) (map strip rs)).
             \<exists>sid. messages_create w (TWILIO_PHONE_NUMBER cfg) message x = Inr sid"
  shows "snd (recipient_loop w cfg message rs) = Inr ()
         \<and> gateway_calls (fst (recipient_loop w cfg message rs))
           = map (\<lambda>t. (TWILIO_PHONE_NUMBER cfg, message, t)) (filter (\<lambda>r. r \<noteq> []) (map strip rs))"
  using assms by (induction rs) (auto simp: Let_def)

lemma recipient_loop_first_failure:
  assumes "filter (\<lambda>r. r \<noteq> []) (map strip rs) = before @ r # later"
    and "\<forall>x \<in> set before. \<exists>sid. messages_create w (TWILIO_PHONE_NUMBER cfg) message x = Inr sid"
    and "messages_create w (TWILIO_PHONE_NUMBER cfg) message r = Inl e"
  shows "snd (recipient_loop w cfg message rs) = Inl e
         \<and> gateway_calls (fst (recipient_loop w cfg message rs))
           = map (\<lambda>t. (TWILIO_PHONE_NUMBER cfg, message, t)) (before @ [r])"
  using assms
proof (induction rs arbitrary: before)
  case Nil
  then show ?case by simp
next
  case (Cons a rs)
  show ?case
  proof (cases "strip a = []")
    case True
    with Cons show ?thesis by (simp add: Let_def)
  next
    case False
    show ?thesis
    proof (cases before)
      case Nil
      with False Cons.prems show ?thesis by (simp add: Let_def)
    next
      case (Cons b before')
      with False Cons.prems have
        "strip a = b" "filter (\<lambda>r. r \<noteq> []) (map strip rs) = before' @ r # later"
        "\<forall>x \<in> set before'. \<exists>sid. messages_create w (TWILIO_PHONE_NUMBER cfg) message x = Inr sid"
        "\<exists>sid. messages_create w (TWILIO_PHONE_NUMBER cfg) message (strip a) = Inr sid"
        by auto
      with Cons.IH [of before'] Cons.prems(3) False Cons show ?thesis
        by (auto simp: Let_def)
    qed
  qed
qed

lemma send_notification_returns: "snd (send_notification w cfg message) = Inr ()"
  by (simp add: send_notification_def try_except_def split: sum.splits option.splits)


text \<open>
  Claim C1, as the code has it. The \<^verbatim>\<open>try\<close> of \<^verbatim>\<open>send_notification\<close> encloses the whole
  loop: when the send to a recipient fails after the sends to the recipients before it have
  succeeded, the SMS client has been called for exactly those recipients and the failing one,
  and for none after it; the failure is logged as the last event and \<^verbatim>\<open>send_notification\<close>
  returns normally, so the cycle goes on.
\<close>

theorem first_delivery_failure_ends_fan_out:
  assumes "twilio_client w (ACCOUNT_SID cfg) (AUTH_TOKEN cfg) = None"
    and "targets cfg = before @ r # later"
    and "\<forall>x \<in> set before. \<exists>sid. messages_create w (TWILIO_PHONE_NUMBER cfg) message x = Inr sid"
    and "messages_create w (TWILIO_PHONE_NUMBER cfg) message r = Inl e"
  shows "gateway_calls (fst (send_notification w cfg message))
           = map (\<lambda>t. (TWILIO_PHONE_NUMBER cfg, message, t)) (before @ [r])
         \<and> last (fst (send_notification w cfg message)) = Log ERROR (SmsFailed e)
         \<and> snd (send_notification w cfg message) = Inr ()"
proof -
  from assms(2) have ne: "RECIPIENT_PHONE_NUMBERS cfg \<noteq> []"
    by (auto simp: targets_def)
  from recipient_loop_first_failure [OF assms(2) [unfolded targets_def] assms(3) assms(4)]
  have rl: "snd (recipient_loop w cfg message (RECIPIENT_PHONE_NUMBERS cfg)) = Inl e"
    "gateway_calls (fst (recipient_loop w cfg message (RECIPIENT_PHONE_NUMBERS cfg)))
       = map (\<lambda>t. (TWILIO_PHONE_NUMBER cfg, message, t)) (before @ [r])"
    by simp_all
  show ?thesis
    using ne assms(1) rl by (simp add: send_notification_def try_except_def)
qed

theorem first_delivery_failure_ends_fan_out_witness:
  "twilio_client rejecting_world (ACCOUNT_SID example_config) (AUTH_TOKEN example_config) = None
   \<and> targets example_config = [] @ ''+15550001'' # [''+15550002'']
   \<and> messages_create rejecting_world (TWILIO_PHONE_NUMBER example_config) ''hello'' ''+15550001''
       = Inl (TwilioException ''invalid number'')
   \<and> gateway_calls (fst (send_notification rejecting_world example_config ''hello''))
       = [(''+15550000'', ''hello'', ''+15550001'')]
   \<and> snd (send_notification rejecting_world example_config ''hello'') = Inr ()"
  using first_delivery_failure_ends_fan_out
          [where w = rejecting_world and cfg = example_config and before = "[]"
             and r = "''+15550001''" and later = "[''+15550002'']" and message = "''hello''"
             and e = "TwilioException ''invalid number''"]
  by (simp add: rejecting_world_def example_world_def example_config_def targets_def strip_def
        isspace_def)

text \<open>
  Claim C1 as stated fails: with the two recipients of \<^const>\<open>example_config\<close> and a
  service that rejects the first, the client is never called for the second.
\<close>

theorem later_recipient_not_reached:
  "messages_create rejecting_world ''+15550000'' ''hello'' ''+15550001''
     = Inl (TwilioException ''invalid number'')
   \<and> RECIPIENT_PHONE_NUMBERS example_config = [''+15550001'', ''+15550002'']
   \<and> send_notification rejecting_world example_config ''hello''
     = ([Send ''+15550000'' ''hello'' ''+15550001'',
         Log ERROR (SmsFailed (TwilioException ''invalid number''))], Inr ())
   \<and> (''+15550000'', ''hello'', ''+15550002'')
       \<notin> set (gateway_calls (fst (send_notification rejecting_world example_config ''hello'')))"
  by (simp add: rejecting_world_def example_world_def example_config_def send_notification_def
        try_except_def strip_def isspace_def emit_def raise_def return_def Let_def)

section \<open>Properties of the notification path\<close>

lemma all_excluded_no_slots:
  assumes "available_slots data False = Inr slots"
    and "\<forall>item \<in> set (response_items data). item_excluded item"
  shows "slots = []"
proof -
  from assms(1) obtain sr staffs where
    sr: "py_get data ''staffAvailabilityResponse'' JNull = Inr sr" "py_iter sr = Inr staffs"
    and sl: "staff_loop staffs [] = Inr slots"
    by (auto simp: available_slots_def split: sum.splits if_splits)
  have "elements (field data ''staffAvailabilityResponse'') = staffs"
    using sr by (simp add: field_def elements_def)
  with staff_loop_spec [OF sl] have
    "slots = map item_slot (filter (\<lambda>i. \<not> item_excluded i) (response_items data))"
    by (simp add: response_items_def)
  with assms(2) show ?thesis by (simp add: filter_empty_conv)
qed

lemma send_notification_all_sent:
  assumes "twilio_client w (ACCOUNT_SID cfg) (AUTH_TOKEN cfg) = None"
    and "\<forall>x \<in> set (targets cfg). \<exists>sid. messages_create w (TWILIO_PHONE_NUMBER cfg) message x = Inr sid"
  shows "gateway_calls (fst (send_notification w cfg message))
           = map (\<lambda>t. (TWILIO_PHONE_NUMBER cfg, message, t)) (targets cfg)"
proof (cases "RECIPIENT_PHONE_NUMBERS cfg = []")
  case True
  then show ?thesis by (simp add: send_notification_def targets_def)
next
  case False
  from recipient_loop_all_sent [OF assms(2) [unfolded targets_def]]
  show ?thesis using False assms(1)
    by (simp add: send_notification_def try_except_def targets_def)
qed

lemma parse_data_calls_need_slots:
  assumes "gateway_calls (fst (parse_data w cfg data test)) \<noteq> []"
  shows "\<exists>slots. available_slots data test = Inr slots \<and> slots \<noteq> []"
  using assms by (auto simp: parse_data_def split: sum.splits if_splits)

text \<open>
  Claim C6, as the code has it. With an empty slot list \<^verbatim>\<open>_parse_data\<close> only logs; a
  response that is read without an exception and whose items are all excluded gives the empty
  list and no call of the SMS client; the client is called only if the slot list is not
  empty; and with a non-empty list whose timestamps the formatter accepts, the text with
  the formatted slots and the link to the booking page is handed to
  \<^verbatim>\<open>send_notification\<close>, which, when the client can be created and no send fails, calls
  it once for every recipient that is not blank, in the configured order.
\<close>

theorem notification_gated_on_slots:
  "(available_slots data test = Inr [] \<longrightarrow>
      parse_data w cfg data test = ([Log INFO NoSlots], Inr ()))
   \<and> (available_slots data False = Inr slots
        \<and> (\<forall>item \<in> set (response_items data). item_excluded item) \<longrightarrow>
      slots = [] \<and> gateway_calls (fst (parse_data w cfg data False)) = [])
   \<and> (gateway_calls (fst (parse_data w cfg data test)) \<noteq> [] \<longrightarrow>
      (\<exists>found. available_slots data test = Inr found \<and> found \<noteq> []))
   \<and> (available_slots data test = Inr slots \<and> slots \<noteq> []
        \<and> format_available_slots w cfg slots = Inr formatted \<longrightarrow>
      parse_data w cfg data test
        = emit (Log INFO SlotsFound) (send_notification w cfg (notification_text cfg formatted))
      \<and> (twilio_client w (ACCOUNT_SID cfg) (AUTH_TOKEN cfg) = None
           \<and> (\<forall>x \<in> set (targets cfg).
                 \<exists>sid. messages_create w (TWILIO_PHONE_NUMBER cfg)
                         (notification_text cfg formatted) x = Inr sid) \<longrightarrow>
          gateway_calls (fst (parse_data w cfg data test))
            = map (\<lambda>t. (TWILIO_PHONE_NUMBER cfg, notification_text cfg formatted, t))
                  (targets cfg)))"
proof (intro conjI impI)
  assume "available_slots data test = Inr []"
  then show "parse_data w cfg data test = ([Log INFO NoSlots], Inr ())"
    by (simp add: parse_data_def emit_def return_def)
next
  assume a: "available_slots data False = Inr slots
             \<and> (\<forall>item \<in> set (response_items data). item_excluded item)"
  then show "slots = []" using all_excluded_no_slots by blast
  with a show "gateway_calls (fst (parse_data w cfg data False)) = []"
    by (simp add: parse_data_def)
next
  assume "gateway_calls (fst (parse_data w cfg data test)) \<noteq> []"
  then show "\<exists>found. available_slots data test = Inr found \<and> found \<noteq> []"
    by (rule parse_data_calls_need_slots)
next
  assume a: "available_slots data test = Inr slots \<and> slots \<noteq> []
             \<and> format_available_slots w cfg slots = Inr formatted"
  then show p: "parse_data w cfg data test
        = emit (Log INFO SlotsFound) (send_notification w cfg (notification_text cfg formatted))"
    by (simp add: parse_data_def)
  assume "twilio_client w (ACCOUNT_SID cfg) (AUTH_TOKEN cfg) = None
           \<and> (\<forall>x \<in> set (targets cfg).
                 \<exists>sid. messages_create w (TWILIO_PHONE_NUMBER cfg)
                         (notification_text cfg formatted) x = Inr sid)"
  then show "gateway_calls (fst (parse_data w cfg data test))
            = map (\<lambda>t. (TWILIO_PHONE_NUMBER cfg, notification_text cfg formatted, t))
                  (targets cfg)"
    using send_notification_all_sent by (simp add: p)
qed

lemma ord_2024_10_22: "ymd2ord 2024 10 22 = 739181"
  by (simp add: ymd2ord_def days_before_year_def days_before_month_def DAYS_BEFORE_MONTH_def
        is_leap_def)

lemma ymd_739181: "ord2ymd 739181 = (2024, 10, 22)"
  by (simp add: ord2ymd_def Let_def DAYS_BEFORE_MONTH_def DAYS_IN_MONTH_def)

lemma ymd_739182: "ord2ymd 739182 = (2024, 10, 23)"
  by (simp add: ord2ymd_def Let_def DAYS_BEFORE_MONTH_def DAYS_IN_MONTH_def)

lemma strftime_11_00: 
  "strftime_date_time \<lparr>year = 2024, month = 10, day = 22, hour = 11, minute = 0, second = 0, utcoffset = x\<rparr>
     = ''Oct 22 11:00AM''"
  by (simp add: strftime_date_time_def strftime_time_def month_abbr_def pad2_def digit_def
        hour12_def am_pm_def)

lemma strftime_11_30:
  "strftime_time \<lparr>year = 2024, month = 10, day = 22, hour = 11, minute = 30, second = 0, utcoffset = x\<rparr>
     = ''11:30AM''"
  by (simp add: strftime_time_def pad2_def digit_def hour12_def am_pm_def)

lemma astimezone_fixture_start:
  assumes "local_utcoffset w fixture_start = 0" "tz fixture_start = - 25200"
  shows "astimezone w fixture_start tz
           = Inr \<lparr>year = 2024, month = 10, day = 22, hour = 11, minute = 0, second = 0,
                  utcoffset = Some (- 25200)\<rparr>"
  using assms
  by (simp add: astimezone_def fixture_start_def datetime_sub_def datetime_add_def
        timedelta_neg_def timedelta_seconds_def toordinal_def ord_2024_10_22 ymd_739181
        MAXORDINAL_def Let_def)

lemma astimezone_fixture_end:
  assumes "local_utcoffset w fixture_end = 0" "tz fixture_end = - 25200"
  shows "astimezone w fixture_end tz
           = Inr \<lparr>year = 2024, month = 10, day = 22, hour = 11, minute = 30, second = 0,
                  utcoffset = Some (- 25200)\<rparr>"
  using assms
  by (simp add: astimezone_def fixture_end_def datetime_sub_def datetime_add_def
        timedelta_neg_def timedelta_seconds_def toordinal_def ord_2024_10_22 ymd_739181
        MAXORDINAL_def Let_def)

lemma format_fixture:
  assumes "fromisoformat w ''2024-10-22T18:00:00'' = Inr fixture_start"
    and "fromisoformat w ''2024-10-22T18:30:00'' = Inr fixture_end"
    and "local_utcoffset w fixture_start = 0" "local_utcoffset w fixture_end = 0"
    and "TIMEZONE cfg fixture_start = - 25200" "TIMEZONE cfg fixture_end = - 25200"
  shows "format_loop w cfg (fixture_slot # slots) acc
           = format_loop w cfg slots (acc @ [''Oct 22 11:00AM - 11:30AM''])"
  using assms
  by (simp add: fixture_slot_def py_fromisoformat_def astimezone_fixture_start
        astimezone_fixture_end strftime_11_00 strftime_11_30)

text \<open>
  Claim C8, as the code has it. In test mode the response is not looked at and the slot
  list is the fixture slot alone. Its timestamps carry no offset, so \<^verbatim>\<open>astimezone\<close>
  reads them in the host's local zone: on a host whose local zone is UTC, and with a display
  zone that is seven hours behind UTC at that time (America/Los_Angeles on 2024-10-22), the
  formatter gives \<^verbatim>\<open>Oct 22 11:00AM - 11:30AM\<close>; the notification holds that line and
  the booking link, and when the client can be created and no send fails it is sent once to
  every recipient that is not blank.
\<close>

theorem test_mode_fixture_notification:
  assumes "fromisoformat w ''2024-10-22T18:00:00'' = Inr fixture_start"
    and "fromisoformat w ''2024-10-22T18:30:00'' = Inr fixture_end"
    and "local_utcoffset w fixture_start = 0" "local_utcoffset w fixture_end = 0"
    and "TIMEZONE cfg fixture_start = - 25200" "TIMEZONE cfg fixture_end = - 25200"
  shows "available_slots data True = Inr [fixture_slot]
         \<and> format_available_slots w cfg [fixture_slot] = Inr ''Oct 22 11:00AM - 11:30AM''
         \<and> parse_data w cfg data True
             = emit (Log INFO SlotsFound)
                 (send_notification w cfg
                    (''Booking Slots Available!'' @ [CHR 0x0A, CHR 0x0A]
                       @ ''Oct 22 11:00AM - 11:30AM'' @ [CHR 0x0A, CHR 0x0A]
                       @ ''Go to: '' @ GET_URL cfg))
         \<and> (twilio_client w (ACCOUNT_SID cfg) (AUTH_TOKEN cfg) = None
              \<and> (\<forall>x \<in> set (targets cfg).
                    \<exists>sid. messages_create w (TWILIO_PHONE_NUMBER cfg)
                            (notification_text cfg ''Oct 22 11:00AM - 11:30AM'') x = Inr sid) \<longrightarrow>
             gateway_calls (fst (parse_data w cfg data True))
               = map (\<lambda>t. (TWILIO_PHONE_NUMBER cfg,
                            notification_text cfg ''Oct 22 11:00AM - 11:30AM'', t))
                     (targets cfg))"
proof -
  have a: "available_slots data True = Inr [fixture_slot]"
    by (simp add: available_slots_def)
  have "format_loop w cfg [fixture_slot] [] = Inr [''Oct 22 11:00AM - 11:30AM'']"
    by (simp only: format_fixture [OF assms] format_loop.simps(1) append_Nil)
  then have f: "format_available_slots w cfg [fixture_slot] = Inr ''Oct 22 11:00AM - 11:30AM''"
    by (simp add: format_available_slots_def)
  have p: "parse_data w cfg data True
             = emit (Log INFO SlotsFound)
                 (send_notification w cfg (notification_text cfg ''Oct 22 11:00AM - 11:30AM''))"
    by (simp add: parse_data_def a f)
  have n: "notification_text cfg ''Oct 22 11:00AM - 11:30AM''
             = ''Booking Slots Available!'' @ [CHR 0x0A, CHR 0x0A]
                 @ ''Oct 22 11:00AM - 11:30AM'' @ [CHR 0x0A, CHR 0x0A]
                 @ ''Go to: '' @ GET_URL cfg"
    by (simp add: notification_text_def)
  show ?thesis
    using a f p send_notification_all_sent [of w cfg "notification_text cfg ''Oct 22 11:00AM - 11:30AM''"]
    unfolding n by simp
qed

lemma example_targets: "targets example_config = [''+15550001'', ''+15550002'']"
  by (simp add: targets_def example_config_def strip_def isspace_def)

theorem test_mode_fixture_notification_witness:
  "fromisoformat example_world ''2024-10-22T18:00:00'' = Inr fixture_start
   \<and> fromisoformat example_world ''2024-10-22T18:30:00'' = Inr fixture_end
   \<and> local_utcoffset example_world fixture_start = 0
   \<and> local_utcoffset example_world fixture_end = 0
   \<and> TIMEZONE example_config fixture_start = - 25200
   \<and> TIMEZONE example_config fixture_end = - 25200
   \<and> format_available_slots example_world example_config [fixture_slot]
       = Inr ''Oct 22 11:00AM - 11:30AM''
   \<and> gateway_calls (fst (parse_data example_world example_config JNull True))
       = [(''+15550000'', notification_text example_config ''Oct 22 11:00AM - 11:30AM'', ''+15550001''),
          (''+15550000'', notification_text example_config ''Oct 22 11:00AM - 11:30AM'', ''+15550002'')]"
proof -
  have h: "fromisoformat example_world ''2024-10-22T18:00:00'' = Inr fixture_start"
    "fromisoformat example_world ''2024-10-22T18:30:00'' = Inr fixture_end"
    "local_utcoffset example_world fixture_start = 0"
    "local_utcoffset example_world fixture_end = 0"
    "TIMEZONE example_config fixture_start = - 25200"
    "TIMEZONE example_config fixture_end = - 25200"
    by (simp_all add: example_world_def example_fromisoformat_def fixture_start_def
          fixture_end_def example_config_def)
  have c: "twilio_client example_world (ACCOUNT_SID example_config) (AUTH_TOKEN example_config) = None"
    "\<forall>x \<in> set (targets example_config).
       \<exists>sid. messages_create example_world (TWILIO_PHONE_NUMBER example_config)
               (notification_text example_config ''Oct 22 11:00AM - 11:30AM'') x = Inr sid"
    by (simp_all add: example_world_def)
  have t: "TWILIO_PHONE_NUMBER example_config = ''+15550000''"
    by (simp add: example_config_def)
  note fixture = test_mode_fixture_notification [OF h, of JNull]
  from fixture have f: "format_available_slots example_world example_config [fixture_slot]
                     = Inr ''Oct 22 11:00AM - 11:30AM''"
    by blast
  from fixture c have "gateway_calls (fst (parse_data example_world example_config JNull True))
      = map (\<lambda>t. (TWILIO_PHONE_NUMBER example_config,
                    notification_text example_config ''Oct 22 11:00AM - 11:30AM'', t))
            (targets example_config)"
    by blast
  then show ?thesis
    using h f by (simp add: example_targets t)
qed

lemma ord_2024_10_23: "ymd2ord 2024 10 23 = 739182"
  by (simp add: ymd2ord_def days_before_year_def days_before_month_def DAYS_BEFORE_MONTH_def
        is_leap_def)

text \<open>
  Claim C8 as stated fails: on a host whose local zone is the display zone itself, the
  fixture slot is rendered as \<^verbatim>\<open>Oct 22 06:00PM - 06:30PM\<close>.
\<close>

theorem pacific_host_renders_evening:
  "local_utcoffset pacific_host_world fixture_start = - 25200
   \<and> format_available_slots pacific_host_world example_config [fixture_slot]
       = Inr ''Oct 22 06:00PM - 06:30PM''
   \<and> format_available_slots pacific_host_world example_config [fixture_slot]
       \<noteq> Inr ''Oct 22 11:00AM - 11:30AM''"
  by (simp add: pacific_host_world_def example_world_def example_config_def
        format_available_slots_def fixture_slot_def py_fromisoformat_def
        example_fromisoformat_def astimezone_def datetime_sub_def datetime_add_def
        timedelta_neg_def timedelta_seconds_def toordinal_def ord_2024_10_22 ord_2024_10_23 ymd_739181
        ymd_739182 MAXORDINAL_def Let_def fixture_start_def
        strftime_date_time_def strftime_time_def month_abbr_def pad2_def digit_def
        hour12_def am_pm_def)

lemma example_all_busy:
  "available_slots all_busy_response False = Inr []"
  "list_all item_excluded (response_items all_busy_response)"
  by (simp_all add: available_slots_def all_busy_response_def item_json_def get_dateTime_def
        excluded_statuses_def response_items_def elements_def field_def item_excluded_def)

lemma example_response_fixture:
  "available_slots example_response False = Inr [fixture_slot, fixture_slot]"
  by (simp add: example_response_slots fixture_slot_def)

lemma format_two_fixtures:
  assumes "fromisoformat w ''2024-10-22T18:00:00'' = Inr fixture_start"
    and "fromisoformat w ''2024-10-22T18:30:00'' = Inr fixture_end"
    and "local_utcoffset w fixture_start = 0" "local_utcoffset w fixture_end = 0"
    and "TIMEZONE cfg fixture_start = - 25200" "TIMEZONE cfg fixture_end = - 25200"
  shows "format_available_slots w cfg [fixture_slot, fixture_slot]
           = Inr (''Oct 22 11:00AM - 11:30AM'' @ [CHR 0x0A] @ ''Oct 22 11:00AM - 11:30AM'')"
proof -
  have "format_loop w cfg [fixture_slot, fixture_slot] []
          = Inr [''Oct 22 11:00AM - 11:30AM'', ''Oct 22 11:00AM - 11:30AM'']"
    by (simp only: format_fixture [OF assms] format_loop.simps(1) append_Nil append_Cons)
  then show ?thesis by (simp add: format_available_slots_def)
qed

lemma example_world_facts:
  "fromisoformat example_world ''2024-10-22T18:00:00'' = Inr fixture_start"
  "fromisoformat example_world ''2024-10-22T18:30:00'' = Inr fixture_end"
  "local_utcoffset example_world fixture_start = 0"
  "local_utcoffset example_world fixture_end = 0"
  "TIMEZONE example_config fixture_start = - 25200"
  "TIMEZONE example_config fixture_end = - 25200"
  by (simp_all add: example_world_def example_fromisoformat_def fixture_start_def
        fixture_end_def example_config_def)

lemma rejecting_world_facts:
  "fromisoformat rejecting_world ''2024-10-22T18:00:00'' = Inr fixture_start"
  "fromisoformat rejecting_world ''2024-10-22T18:30:00'' = Inr fixture_end"
  "local_utcoffset rejecting_world fixture_start = 0"
  "local_utcoffset rejecting_world fixture_end = 0"
  by (simp_all add: rejecting_world_def example_world_facts)

theorem notification_gated_on_slots_witness:
  "available_slots all_busy_response False = Inr []
   \<and> list_all item_excluded (response_items all_busy_response)
   \<and> parse_data example_world example_config all_busy_response False = ([Log INFO NoSlots], Inr ())
   \<and> available_slots example_response False = Inr [fixture_slot, fixture_slot]
   \<and> format_available_slots example_world example_config [fixture_slot, fixture_slot]
       = Inr (''Oct 22 11:00AM - 11:30AM'' @ [CHR 0x0A] @ ''Oct 22 11:00AM - 11:30AM'')
   \<and> gateway_calls (fst (parse_data example_world example_config example_response False))
       = [(''+15550000'',
           notification_text example_config
             (''Oct 22 11:00AM - 11:30AM'' @ [CHR 0x0A] @ ''Oct 22 11:00AM - 11:30AM''),
           ''+15550001''),
          (''+15550000'',
           notification_text example_config
             (''Oct 22 11:00AM - 11:30AM'' @ [CHR 0x0A] @ ''Oct 22 11:00AM - 11:30AM''),
           ''+15550002'')]"
proof -
  let ?text = "''Oct 22 11:00AM - 11:30AM'' @ [CHR 0x0A] @ ''Oct 22 11:00AM - 11:30AM''"
  have f: "format_available_slots example_world example_config [fixture_slot, fixture_slot]
             = Inr ?text"
    by (rule format_two_fixtures [OF example_world_facts])
  have c: "twilio_client example_world (ACCOUNT_SID example_config) (AUTH_TOKEN example_config) = None"
    "\<forall>x \<in> set (targets example_config).
       \<exists>sid. messages_create example_world (TWILIO_PHONE_NUMBER example_config)
               (notification_text example_config ?text) x = Inr sid"
    by (simp_all add: example_world_def)
  have t: "TWILIO_PHONE_NUMBER example_config = ''+15550000''"
    by (simp add: example_config_def)
  note busy = notification_gated_on_slots
                [where data = all_busy_response and test = False and slots = "[]"
                   and w = example_world and cfg = example_config]
  note found = notification_gated_on_slots
                [where data = example_response and test = False
                   and slots = "[fixture_slot, fixture_slot]" and formatted = ?text
                   and w = example_world and cfg = example_config]
  from busy example_all_busy(1) have
    b: "parse_data example_world example_config all_busy_response False = ([Log INFO NoSlots], Inr ())"
    by blast
  from found example_response_fixture f c have
    "gateway_calls (fst (parse_data example_world example_config example_response False))
       = map (\<lambda>t. (TWILIO_PHONE_NUMBER example_config, notification_text example_config ?text, t))
             (targets example_config)"
    by blast
  then show ?thesis
    using example_all_busy example_response_fixture f b by (simp add: example_targets t)
qed

text \<open>
  Claim C6 as stated fails: the slot list of \<^const>\<open>example_response\<close> is not empty, yet
  with a service that rejects the first recipient the second configured recipient is never
  sent the message.
\<close>

theorem second_recipient_gets_no_notification:
  "available_slots example_response False = Inr [fixture_slot, fixture_slot]
   \<and> RECIPIENT_PHONE_NUMBERS example_config = [''+15550001'', ''+15550002'']
   \<and> gateway_calls (fst (parse_data rejecting_world example_config example_response False))
       = [(''+15550000'',
           notification_text example_config
             (''Oct 22 11:00AM - 11:30AM'' @ [CHR 0x0A] @ ''Oct 22 11:00AM - 11:30AM''),
           ''+15550001'')]"
proof -
  let ?text = "''Oct 22 11:00AM - 11:30AM'' @ [CHR 0x0A] @ ''Oct 22 11:00AM - 11:30AM''"
  have f: "format_available_slots rejecting_world example_config [fixture_slot, fixture_slot]
             = Inr ?text"
    by (rule format_two_fixtures [OF rejecting_world_facts example_world_facts(5,6)])
  have s: "gateway_calls (fst (send_notification rejecting_world example_config m))
             = [(''+15550000'', m, ''+15550001'')]" for m
    by (simp add: rejecting_world_def example_world_def example_config_def send_notification_def
          try_except_def strip_def isspace_def Let_def)
  have r: "RECIPIENT_PHONE_NUMBERS example_config = [''+15550001'', ''+15550002'']"
    by (simp add: example_config_def)
  show ?thesis
    using example_response_fixture f s r by (simp add: parse_data_def)
qed

text \<open>
  Claim C7. When the session GET is answered with a status other than 200 (and the
  polling interval is a valid sleep length), the cycle consists of the GET, the error log
  record and the sleep of the polling interval, and nothing else: no POST, no parse. The
  loop then goes on with the next iteration.
\<close>

theorem get_failure_skips_post_and_parse:
  assumes "session_get w = Inr response" and "status_code response \<noteq> 200"
    and "0 \<le> polling_interval"
  shows "cycle cfg polling_interval test w
           = ([Get (GET_URL cfg),
               Log ERROR (GetFailed (status_code response) (resp_text response)),
               Sleep polling_interval], Inr ())
         \<and> check_availability cfg polling_interval test (w # ws)
           = ([Get (GET_URL cfg),
               Log ERROR (GetFailed (status_code response) (resp_text response)),
               Sleep polling_interval] @ fst (check_availability cfg polling_interval test ws),
              snd (check_availability cfg polling_interval test ws))"
proof -
  have "cycle cfg polling_interval test w
           = ([Get (GET_URL cfg),
               Log ERROR (GetFailed (status_code response) (resp_text response)),
               Sleep polling_interval], Inr ())"
    using assms
    by (simp add: cycle_def try_body_def try_except_def bind_def sleep_def emit_def return_def)
  then show ?thesis by simp
qed

theorem get_failure_skips_post_and_parse_witness:
  "session_get unavailable_world
     = Inr \<lparr>status_code = 503, resp_text = ''Service Unavailable'',
            resp_json = Inl (JSONDecodeError ''Expecting value'')\<rparr>
   \<and> (503::int) \<noteq> 200 \<and> (0::int) \<le> 60
   \<and> cycle example_config 60 False unavailable_world
       = ([Get (GET_URL example_config), Log ERROR (GetFailed 503 ''Service Unavailable''),
           Sleep 60], Inr ())
   \<and> check_availability example_config 60 False [unavailable_world, unavailable_world]
       = ([Get (GET_URL example_config), Log ERROR (GetFailed 503 ''Service Unavailable''),
           Sleep 60,
           Get (GET_URL example_config), Log ERROR (GetFailed 503 ''Service Unavailable''),
           Sleep 60], Looping)"
  using get_failure_skips_post_and_parse
          [where w = unavailable_world and polling_interval = 60 and cfg = example_config
             and test = False
             and response = "\<lparr>status_code = 503, resp_text = ''Service Unavailable'',
                                resp_json = Inl (JSONDecodeError ''Expecting value'')\<rparr>"
             and ws = "[unavailable_world]"]
        get_failure_skips_post_and_parse
          [where w = unavailable_world and polling_interval = 60 and cfg = example_config
             and test = False
             and response = "\<lparr>status_code = 503, resp_text = ''Service Unavailable'',
                                resp_json = Inl (JSONDecodeError ''Expecting value'')\<rparr>"
             and ws = "[]"]
  by (simp add: unavailable_world_def)

section \<open>Properties of the payload builder\<close>

lemma div_decomp: "0 \<le> r \<Longrightarrow> r < k \<Longrightarrow> (q * k + r) div k = (q::int)"
  by simp

lemma mod_zero_iff: "0 < v \<Longrightarrow> v \<le> k \<Longrightarrow> (v mod k = 0) = (v = (k::int))"
  by (cases "v = k") simp_all

lemma days_before_year_decomp:
  fixes a b c d :: int
  assumes "0 \<le> b" "b \<le> 3" "0 \<le> c" "c \<le> 24" "0 \<le> d" "d \<le> 3"
  shows "days_before_year (a * 400 + 1 + b * 100 + c * 4 + d) = 146097 * a + 36524 * b + 1461 * c + 365 * d"
proof -
  define Y where "Y = a * 400 + b * 100 + c * 4 + d"
  have "Y = (100 * a + 25 * b + c) * 4 + d" by (simp add: Y_def)
  then have d4: "Y div 4 = 100 * a + 25 * b + c"
    using div_decomp [of d 4 "100 * a + 25 * b + c"] assms by simp
  have "Y = (4 * a + b) * 100 + (c * 4 + d)" by (simp add: Y_def)
  then have d100: "Y div 100 = 4 * a + b"
    using div_decomp [of "c * 4 + d" 100 "4 * a + b"] assms by simp
  have "Y = a * 400 + (b * 100 + c * 4 + d)" by (simp add: Y_def)
  then have d400: "Y div 400 = a"
    using div_decomp [of "b * 100 + c * 4 + d" 400 a] assms by simp
  have arg: "a * 400 + 1 + b * 100 + c * 4 + d - 1 = Y" by (simp add: Y_def)
  have "days_before_year (a * 400 + 1 + b * 100 + c * 4 + d) = Y * 365 + Y div 4 - Y div 100 + Y div 400"
    unfolding days_before_year_def arg ..
  also have "\<dots> = 146097 * a + 36524 * b + 1461 * c + 365 * d"
    unfolding d4 d100 d400 by (simp add: Y_def)
  finally show ?thesis .
qed

lemma is_leap_decomp:
  fixes a b c d :: int
  assumes "0 \<le> b" "b \<le> 3" "0 \<le> c" "c \<le> 24" "0 \<le> d" "d \<le> 3"
  shows "is_leap (a * 400 + 1 + b * 100 + c * 4 + d) = (d = 3 \<and> (c \<noteq> 24 \<or> b = 3))"
proof -
  define y where "y = a * 400 + 1 + b * 100 + c * 4 + d"
  have "y = (d + 1) + (100 * a + 25 * b + c) * 4" by (simp add: y_def)
  then have m4: "y mod 4 = (d + 1) mod 4" by (simp only: mod_mult_self1)
  have "y = (c * 4 + d + 1) + (4 * a + b) * 100" by (simp add: y_def)
  then have m100: "y mod 100 = (c * 4 + d + 1) mod 100" by (simp only: mod_mult_self1)
  have "y = (b * 100 + c * 4 + d + 1) + a * 400" by (simp add: y_def)
  then have m400: "y mod 400 = (b * 100 + c * 4 + d + 1) mod 400" by (simp only: mod_mult_self1)
  have e4: "((d + 1) mod 4 = 0) = (d = 3)"
    using mod_zero_iff [of "d + 1" 4] assms by auto
  have "(c * 4 + d + 1 = 100) = (c = 24 \<and> d = 3)" using assms by arith
  then have e100: "((c * 4 + d + 1) mod 100 = 0) = (c = 24 \<and> d = 3)"
    using mod_zero_iff [of "c * 4 + d + 1" 100] assms by simp
  have "(b * 100 + c * 4 + d + 1 = 400) = (b = 3 \<and> c = 24 \<and> d = 3)" using assms by arith
  then have e400: "((b * 100 + c * 4 + d + 1) mod 400 = 0) = (b = 3 \<and> c = 24 \<and> d = 3)"
    using mod_zero_iff [of "b * 100 + c * 4 + d + 1" 400] assms by simp
  have "is_leap y = (d = 3 \<and> (c \<noteq> 24 \<or> b = 3))"
    unfolding is_leap_def m4 m100 m400 e4 e100 e400 by blast
  then show ?thesis by (simp only: y_def)
qed

lemma days_before_month_table:
  "DAYS_BEFORE_MONTH ! 0 = -1" "DAYS_BEFORE_MONTH ! Suc 0 = 0" "DAYS_BEFORE_MONTH ! 2 = 31"
  "DAYS_BEFORE_MONTH ! 3 = 59" "DAYS_BEFORE_MONTH ! 4 = 90" "DAYS_BEFORE_MONTH ! 5 = 120"
  "DAYS_BEFORE_MONTH ! 6 = 151" "DAYS_BEFORE_MONTH ! 7 = 181" "DAYS_BEFORE_MONTH ! 8 = 212"
  "DAYS_BEFORE_MONTH ! 9 = 243" "DAYS_BEFORE_MONTH ! 10 = 273" "DAYS_BEFORE_MONTH ! 11 = 304"
  "DAYS_BEFORE_MONTH ! 12 = 334"
  by (simp_all add: DAYS_BEFORE_MONTH_def)

lemma days_in_month_table:
  "DAYS_IN_MONTH ! 0 = -1" "DAYS_IN_MONTH ! Suc 0 = 31" "DAYS_IN_MONTH ! 2 = 28"
  "DAYS_IN_MONTH ! 3 = 31" "DAYS_IN_MONTH ! 4 = 30" "DAYS_IN_MONTH ! 5 = 31"
  "DAYS_IN_MONTH ! 6 = 30" "DAYS_IN_MONTH ! 7 = 31" "DAYS_IN_MONTH ! 8 = 31"
  "DAYS_IN_MONTH ! 9 = 30" "DAYS_IN_MONTH ! 10 = 31" "DAYS_IN_MONTH ! 11 = 30"
  "DAYS_IN_MONTH ! 12 = 31"
  by (simp_all add: DAYS_IN_MONTH_def)

lemma month_cases:
  fixes m :: int
  assumes "1 \<le> m" "m \<le> 12"
  shows "m = 1 \<or> m = 2 \<or> m = 3 \<or> m = 4 \<or> m = 5 \<or> m = 6 \<or> m = 7 \<or> m = 8 \<or> m = 9
         \<or> m = 10 \<or> m = 11 \<or> m = 12"
  using assms by presburger

lemma month_estimate_bounds:
  fixes r :: int
  assumes "0 \<le> r" "r < 365"
  shows "1 \<le> (r + 50) div 32" "(r + 50) div 32 \<le> 12"
proof -
  have "32 div 32 \<le> (r + 50) div (32::int)" using assms by (intro zdiv_mono1) simp_all
  then show "1 \<le> (r + 50) div 32" by simp
  have "(r + 50) div 32 \<le> 414 div (32::int)" using assms by (intro zdiv_mono1) simp_all
  then show "(r + 50) div 32 \<le> 12" by simp
qed

text \<open>The month and day that \<^const>\<open>ord2ymd\<close> finds for day \<open>r\<close> of a year, read back.\<close>

lemma month_part:
  fixes r m :: int
  assumes "0 \<le> r" "1 \<le> m" "m \<le> 12"
  shows "(let preceding = DAYS_BEFORE_MONTH ! nat m + (if 2 < m \<and> L then 1 else 0)
          in if r < preceding
             then DAYS_BEFORE_MONTH ! nat (m - 1) + (if 2 < m - 1 \<and> L then 1 else 0)
                  + (r - (preceding - (DAYS_IN_MONTH ! nat (m - 1)
                                        + (if m - 1 = 2 \<and> L then 1 else 0))) + 1)
             else DAYS_BEFORE_MONTH ! nat m + (if 2 < m \<and> L then 1 else 0) + (r - preceding + 1))
         = r + 1"
  using month_cases [OF assms(2,3)] assms(1)
  by (elim disjE) (simp_all add: Let_def days_before_month_table days_in_month_table)

lemma ymd2ord_ord2ymd:
  assumes "0 < n"
  shows "(case ord2ymd n of (y, m, d) \<Rightarrow> ymd2ord y m d) = n"
proof -
  define n0 where "n0 = n - 1"
  define a where "a = n0 div 146097"
  define r1 where "r1 = n0 mod 146097"
  define b where "b = r1 div 36524"
  define r2 where "r2 = r1 mod 36524"
  define c where "c = r2 div 1461"
  define r3 where "r3 = r2 mod 1461"
  define d where "d = r3 div 365"
  define r4 where "r4 = r3 mod 365"
  define y where "y = a * 400 + 1 + b * 100 + c * 4 + d"
  define L where "L = (d = 3 \<and> (c \<noteq> 24 \<or> b = 3))"
  define m where "m = (r4 + 50) div 32"
  define P where "P = DAYS_BEFORE_MONTH ! nat m + (if 2 < m \<and> L then 1 else 0)"
  define X where "X = r4 - (P - (DAYS_IN_MONTH ! nat (m - 1)
                                  + (if m - 1 = 2 \<and> L then 1 else 0))) + 1"
  have e1: "n0 = a * 146097 + r1" by (simp add: a_def r1_def)
  have e2: "r1 = b * 36524 + r2" by (simp add: b_def r2_def)
  have e3: "r2 = c * 1461 + r3" by (simp add: c_def r3_def)
  have e4: "r3 = d * 365 + r4" by (simp add: d_def r4_def)
  have b1: "0 \<le> r1" "r1 < 146097" by (simp_all add: r1_def)
  have b2: "0 \<le> r2" "r2 < 36524" by (simp_all add: r2_def)
  have b3: "0 \<le> r3" "r3 < 1461" by (simp_all add: r3_def)
  have b4: "0 \<le> r4" "r4 < 365" by (simp_all add: r4_def)
  have bb: "0 \<le> b" "b \<le> 4" using b1 b2 e2 by arith+
  have bc: "0 \<le> c" "c \<le> 24" using b2 b3 e3 by arith+
  have bd: "0 \<le> d" "d \<le> 4" using b3 b4 e4 by arith+
  have total: "n = 146097 * a + 36524 * b + 1461 * c + 365 * d + r4 + 1"
    using e1 e2 e3 e4 by (simp add: n0_def)
  have o: "ord2ymd n =
     (if d = 4 \<or> b = 4 then (y - 1, 12, 31)
      else if r4 < P then (y, m - 1, X) else (y, m, r4 - P + 1))"
    unfolding ord2ymd_def Let_def X_def P_def m_def L_def y_def r4_def d_def r3_def c_def
      r2_def b_def r1_def a_def n0_def
    ..
  show ?thesis
  proof (cases "d = 4 \<or> b = 4")
    case True
    have last: "b = 4 \<longrightarrow> c = 0 \<and> d = 0 \<and> r4 = 0" "d = 4 \<longrightarrow> r4 = 0 \<and> c \<noteq> 24"
      using b1 b2 b3 b4 bb bc bd e2 e3 e4 by arith+
    have res: "ord2ymd n = (y - 1, 12, 31)" using True by (simp add: o)
    show ?thesis
    proof (cases "b = 4")
      case True
      with last have z: "c = 0" "d = 0" "r4 = 0" by simp_all
      have "y - 1 = a * 400 + 1 + 3 * 100 + 24 * 4 + 3" by (simp add: y_def True z)
      then have "days_before_year (y - 1) = 146097 * a + 145731" "is_leap (y - 1)"
        using days_before_year_decomp [of 3 24 3 a] is_leap_decomp [of 3 24 3 a] by simp_all
      then show ?thesis
        unfolding res using total True z
        by (simp add: ymd2ord_def days_before_month_def days_before_month_table)
    next
      case False
      with True last bb have z: "d = 4" "r4 = 0" "c \<noteq> 24" "b \<le> 3" by simp_all
      have "y - 1 = a * 400 + 1 + b * 100 + c * 4 + 3" by (simp add: y_def z)
      then have "days_before_year (y - 1) = 146097 * a + 36524 * b + 1461 * c + 1095"
        "is_leap (y - 1)"
        using days_before_year_decomp [of b c 3 a] is_leap_decomp [of b c 3 a] bb bc z
        by simp_all
      then show ?thesis
        unfolding res using total z
        by (simp add: ymd2ord_def days_before_month_def days_before_month_table)
    qed
  next
    case False
    with bb bd have r: "b \<le> 3" "d \<le> 3" by simp_all
    have dby: "days_before_year y = 146097 * a + 36524 * b + 1461 * c + 365 * d"
      unfolding y_def using days_before_year_decomp [of b c d a] bb bc bd r by simp
    have leap: "is_leap y = L"
      unfolding y_def L_def using is_leap_decomp [of b c d a] bb bc bd r by simp
    have mb: "1 \<le> m" "m \<le> 12"
      using month_estimate_bounds [OF b4] by (simp_all add: m_def)
    have mp: "(if r4 < P
               then DAYS_BEFORE_MONTH ! nat (m - 1) + (if 2 < m - 1 \<and> L then 1 else 0) + X
               else P + (r4 - P + 1)) = r4 + 1"
      using month_part [OF b4(1) mb, of L] unfolding Let_def X_def P_def .
    show ?thesis
    proof (cases "r4 < P")
      case True
      have res: "ord2ymd n = (y, m - 1, X)" using True False by (simp add: o)
      from mp True have
        "DAYS_BEFORE_MONTH ! nat (m - 1) + (if 2 < m - 1 \<and> L then 1 else 0) + X = r4 + 1"
        by simp
      then show ?thesis
        unfolding res using total dby
        by (simp add: ymd2ord_def days_before_month_def leap)
    next
      case nlt: False
      have res: "ord2ymd n = (y, m, r4 - P + 1)" using nlt False by (simp add: o)
      show ?thesis
        unfolding res using total dby
        by (simp add: ymd2ord_def days_before_month_def leap P_def)
    qed
  qed
qed

lemma example_payload:
  "create_post_payload cfg
     \<lparr>year = 2024, month = 10, day = 10, hour = 0, minute = 0, second = 0, utcoffset = Some 0\<rparr>
   = Inr (JDict
       [(''serviceId'', SERVICE_ID cfg),
        (''staffIds'', STAFF_IDS cfg),
        (''startDateTime'',
           JDict [(''dateTime'', JStr ''2024-10-09T00:00:00''),
                  (''timeZone'', JStr ''Pacific Standard Time'')]),
        (''endDateTime'',
           JDict [(''dateTime'', JStr ''2024-10-21T00:00:00''),
                  (''timeZone'', JStr ''Pacific Standard Time'')])])"
  by (simp add: create_post_payload_def datetime_sub_def datetime_add_def timedelta_neg_def
        timedelta_days_def toordinal_def ymd2ord_def days_before_year_def days_before_month_def
        DAYS_BEFORE_MONTH_def DAYS_IN_MONTH_def is_leap_def ord2ymd_def MAXORDINAL_def Let_def
        strftime_midnight_def pad4_def pad2_def digit_def)


lemma time_of_day_decomp:
  fixes h mi s :: int
  assumes "0 \<le> h" "h < 24" "0 \<le> mi" "mi < 60" "0 \<le> s" "s < 60"
  shows "(h * 3600 + mi * 60 + s) div 86400 = 0"
    and "(h * 3600 + mi * 60 + s) mod 86400 = h * 3600 + mi * 60 + s"
    and "(h * 3600 + mi * 60 + s) div 3600 = h"
    and "(h * 3600 + mi * 60 + s) mod 3600 div 60 = mi"
    and "(h * 3600 + mi * 60 + s) mod 60 = s"
proof -
  have r: "0 \<le> h * 3600 + mi * 60 + s" "h * 3600 + mi * 60 + s < 86400"
    using assms by arith+
  show "(h * 3600 + mi * 60 + s) div 86400 = 0" using r by simp
  show "(h * 3600 + mi * 60 + s) mod 86400 = h * 3600 + mi * 60 + s" using r by simp
  have i: "0 \<le> mi * 60 + s" "mi * 60 + s < 3600" using assms by arith+
  have "h * 3600 + mi * 60 + s = h * 3600 + (mi * 60 + s)" by simp
  then show "(h * 3600 + mi * 60 + s) div 3600 = h"
    using div_decomp [OF i, of h] by simp
  have "(h * 3600 + (mi * 60 + s)) mod 3600 = mi * 60 + s"
    using i by simp
  then have "(h * 3600 + mi * 60 + s) mod 3600 = mi * 60 + s"
    by (simp add: add.assoc)
  then show "(h * 3600 + mi * 60 + s) mod 3600 div 60 = mi"
    using div_decomp [OF assms(5,6), of mi] by simp
  have "h * 3600 + mi * 60 + s = s + (h * 60 + mi) * 60" by simp
  then have "(h * 3600 + mi * 60 + s) mod 60 = s mod 60"
    by (simp only: mod_mult_self1)
  then show "(h * 3600 + mi * 60 + s) mod 60 = s" using assms by simp
qed

lemma datetime_add_days:
  assumes "valid_time dt" and "0 < toordinal dt + k" and "toordinal dt + k \<le> MAXORDINAL"
  shows "\<exists>r. datetime_add dt (timedelta_days k) = Inr r
             \<and> toordinal r = toordinal dt + k
             \<and> (year r, month r, day r) = ord2ymd (toordinal dt + k)
             \<and> hour r = hour dt \<and> minute r = minute dt \<and> second r = second dt
             \<and> utcoffset r = utcoffset dt"
proof -
  obtain y m d where o: "ord2ymd (toordinal dt + k) = (y, m, d)"
    by (cases "ord2ymd (toordinal dt + k)") blast
  from assms(1) have t: "0 \<le> hour dt" "hour dt < 24" "0 \<le> minute dt" "minute dt < 60"
    "0 \<le> second dt" "second dt < 60"
    by (simp_all add: valid_time_def)
  note td = time_of_day_decomp [OF t]
  have a: "datetime_add dt (timedelta_days k)
             = Inr (dt\<lparr>year := y, month := m, day := d\<rparr>)"
    using assms(2,3) o by (simp add: datetime_add_def timedelta_days_def Let_def td)
  have "ymd2ord y m d = toordinal dt + k"
    using ymd2ord_ord2ymd [OF assms(2)] o by simp
  then show ?thesis
    using a o by (simp add: toordinal_def)
qed

text \<open>
  Claim C5. For every instant \<open>today\<close> whose day is not the first and not among the last
  eleven that \<^verbatim>\<open>datetime\<close> can hold, the payload builder succeeds: the start is the same
  time of day one day before \<open>today\<close>, the end is twelve days after the start, and the body
  carries the dates of both, at \<^verbatim>\<open>00:00:00\<close>, each paired with the label
  \<^verbatim>\<open>Pacific Standard Time\<close>. For 2024-10-10T00:00:00Z the body carries
  \<^verbatim>\<open>2024-10-09T00:00:00\<close> and \<^verbatim>\<open>2024-10-21T00:00:00\<close>.
\<close>

theorem payload_window:
  assumes "valid_time today" and "1 < toordinal today" and "toordinal today + 11 \<le> MAXORDINAL"
  shows "(\<exists>start_date end_date.
            datetime_sub today (timedelta_days 1) = Inr start_date
            \<and> datetime_add start_date (timedelta_days 12) = Inr end_date
            \<and> toordinal start_date = toordinal today - 1
            \<and> toordinal end_date = toordinal start_date + 12
            \<and> hour start_date = hour today \<and> minute start_date = minute today
            \<and> second start_date = second today
            \<and> hour end_date = hour today \<and> minute end_date = minute today
            \<and> second end_date = second today
            \<and> create_post_payload cfg today
                = Inr (JDict
                    [(''serviceId'', SERVICE_ID cfg),
                     (''staffIds'', STAFF_IDS cfg),
                     (''startDateTime'',
                        JDict [(''dateTime'', JStr (strftime_midnight start_date)),
                               (''timeZone'', JStr ''Pacific Standard Time'')]),
                     (''endDateTime'',
                        JDict [(''dateTime'', JStr (strftime_midnight end_date)),
                               (''timeZone'', JStr ''Pacific Standard Time'')])]))
         \<and> create_post_payload cfg october_10
             = Inr (JDict
                 [(''serviceId'', SERVICE_ID cfg),
                  (''staffIds'', STAFF_IDS cfg),
                  (''startDateTime'',
                     JDict [(''dateTime'', JStr ''2024-10-09T00:00:00''),
                            (''timeZone'', JStr ''Pacific Standard Time'')]),
                  (''endDateTime'',
                     JDict [(''dateTime'', JStr ''2024-10-21T00:00:00''),
                            (''timeZone'', JStr ''Pacific Standard Time'')])])"
proof -
  have "0 < toordinal today + (- 1)" "toordinal today + (- 1) \<le> MAXORDINAL"
    using assms(2,3) by simp_all
  from datetime_add_days [OF assms(1) this] obtain s where
    s: "datetime_sub today (timedelta_days 1) = Inr s" "toordinal s = toordinal today - 1"
       "hour s = hour today" "minute s = minute today" "second s = second today"
    by (auto simp: datetime_sub_def timedelta_neg_def timedelta_days_def)
  have vs: "valid_time s" using assms(1) s by (simp add: valid_time_def)
  have "0 < toordinal s + 12" "toordinal s + 12 \<le> MAXORDINAL"
    using assms(2,3) s(2) by simp_all
  from datetime_add_days [OF vs this] obtain e where
    e: "datetime_add s (timedelta_days 12) = Inr e" "toordinal e = toordinal s + 12"
       "hour e = hour s" "minute e = minute s" "second e = second s"
    by auto
  have "create_post_payload cfg today
          = Inr (JDict
              [(''serviceId'', SERVICE_ID cfg),
               (''staffIds'', STAFF_IDS cfg),
               (''startDateTime'',
                  JDict [(''dateTime'', JStr (strftime_midnight s)),
                         (''timeZone'', JStr ''Pacific Standard Time'')]),
               (''endDateTime'',
                  JDict [(''dateTime'', JStr (strftime_midnight e)),
                         (''timeZone'', JStr ''Pacific Standard Time'')])])"
    by (simp add: create_post_payload_def s(1) e(1))
  with s e example_payload [of cfg] show ?thesis
    by (auto simp: october_10_def)
qed

theorem payload_window_witness:
  "valid_time october_10 \<and> 1 < toordinal october_10 \<and> toordinal october_10 + 11 \<le> MAXORDINAL
   \<and> toordinal october_10 = 739169
   \<and> create_post_payload example_config october_10
       = Inr (JDict
           [(''serviceId'', JStr ''svc''),
            (''staffIds'', JList [JStr ''staff-1'']),
            (''startDateTime'',
               JDict [(''dateTime'', JStr ''2024-10-09T00:00:00''),
                      (''timeZone'', JStr ''Pacific Standard Time'')]),
            (''endDateTime'',
               JDict [(''dateTime'', JStr ''2024-10-21T00:00:00''),
                      (''timeZone'', JStr ''Pacific Standard Time'')])])"
proof -
  have o: "toordinal october_10 = 739169"
    by (simp add: october_10_def toordinal_def ymd2ord_def days_before_year_def
          days_before_month_def DAYS_BEFORE_MONTH_def is_leap_def)
  have h: "valid_time october_10" "1 < toordinal october_10"
    "toordinal october_10 + 11 \<le> MAXORDINAL"
    by (simp_all add: o MAXORDINAL_def) (simp add: valid_time_def october_10_def)
  from payload_window [OF h, of example_config] show ?thesis
    using h o by (simp add: example_config_def)
qed

section \<open>Properties of the poll loop\<close>

lemma cycle_request_exception_caught:
  assumes "session_get w = Inl e" and "is_RequestException e" and "0 \<le> polling_interval"
  shows "cycle cfg polling_interval test w
           = ([Get (GET_URL cfg), Log ERROR (NetworkError e),
               Log INFO (Waiting polling_interval), Sleep polling_interval], Inr ())"
  using assms
  by (simp add: cycle_def try_body_def try_except_def bind_def sleep_def emit_def return_def
        raise_def)

lemma cycle_parse_ValueError_caught:
  assumes "session_get w = Inr r1" and "status_code r1 = 200"
    and "create_post_payload cfg (now w) = Inr payload"
    and "session_post w = Inr r2" and "status_code r2 = 200"
    and "resp_json r2 = Inr data"
    and "parse_data w cfg data test = (evs, Inl e)" and "is_ValueError e"
    and "0 \<le> polling_interval"
  shows "cycle cfg polling_interval test w
           = ([Get (GET_URL cfg), Log INFO GetOk, Post (POST_URL cfg) payload, Log INFO PostOk,
               Log DEBUG (ResponseData data)] @ evs
              @ [Log ERROR (JsonParseFailed e), Log INFO (Waiting polling_interval),
                 Sleep polling_interval], Inr ())"
  using assms
  by (simp add: cycle_def try_body_def try_except_def bind_def sleep_def emit_def return_def
        raise_def)

lemma cycle_json_decode_error_caught:
  assumes "session_get w = Inr r1" and "status_code r1 = 200"
    and "create_post_payload cfg (now w) = Inr payload"
    and "session_post w = Inr r2" and "status_code r2 = 200"
    and "resp_json r2 = Inl e" and "is_ValueError e"
    and "0 \<le> polling_interval"
  shows "cycle cfg polling_interval test w
           = ([Get (GET_URL cfg), Log INFO GetOk, Post (POST_URL cfg) payload, Log INFO PostOk,
               Log ERROR (JsonParseFailed e), Log INFO (Waiting polling_interval),
               Sleep polling_interval], Inr ())"
  using assms
  by (simp add: cycle_def try_body_def try_except_def bind_def sleep_def emit_def return_def
        raise_def)

lemma cycle_parse_other_exception_propagates:
  assumes "session_get w = Inr r1" and "status_code r1 = 200"
    and "create_post_payload cfg (now w) = Inr payload"
    and "session_post w = Inr r2" and "status_code r2 = 200"
    and "resp_json r2 = Inr data"
    and "snd (parse_data w cfg data test) = Inl e"
    and "\<not> is_ValueError e" and "\<not> is_RequestException e"
  shows "snd (cycle cfg polling_interval test w) = Inl e"
  using assms
  by (simp add: cycle_def try_body_def try_except_def bind_def)

text \<open>
  Claim C9, at the world \<^const>\<open>list_body_world\<close>: the availability query is answered with
  status 200 and the JSON body \<^verbatim>\<open>[]\<close>. Line 191 calls \<^verbatim>\<open>.get\<close> on a list, which raises
  \<^verbatim>\<open>AttributeError\<close>; neither \<^verbatim>\<open>except ValueError\<close> nor
  \<^verbatim>\<open>except RequestException\<close> handles it, so it leaves the \<^verbatim>\<open>while\<close> loop and the next
  iteration never runs. The first three lemmas above are the failures the loop does recover from.
\<close>

theorem list_body_ends_poll_loop:
  "session_post list_body_world = Inr \<lparr>status_code = 200, resp_text = [], resp_json = Inr (JList [])\<rparr>
   \<and> snd (parse_data list_body_world example_config (JList []) False) = Inl (AttributeError ''get'')
   \<and> snd (cycle example_config 60 False list_body_world) = Inl (AttributeError ''get'')
   \<and> snd (check_availability example_config 60 False [list_body_world, example_world])
       = Propagated (AttributeError ''get'')"
proof -
  have p: "snd (parse_data list_body_world example_config (JList []) False)
             = Inl (AttributeError ''get'')"
    by (simp add: parse_data_def available_slots_def)
  have n: "now list_body_world
             = \<lparr>year = 2024, month = 10, day = 10, hour = 0, minute = 0, second = 0,
                utcoffset = Some 0\<rparr>"
    by (simp add: list_body_world_def example_world_def)
  have c: "snd (cycle example_config 60 False list_body_world) = Inl (AttributeError ''get'')"
    by (rule cycle_parse_other_exception_propagates
          [where ?r1.0 = "ok_response JNull" and ?r2.0 = "ok_response (JList [])"
             and data = "JList []", OF _ _ example_payload [folded n] _ _ _ p])
       (simp_all add: list_body_world_def example_world_def ok_response_def)
  show ?thesis
    using p c by (simp add: list_body_world_def example_world_def ok_response_def)
qed

end
